theory Spec2Isabelle
  imports Main
begin

section \<open>The RAG backend (backend/main.py) as state-passing functions\<close>

text \<open>
  The backend is a set of request handlers around three kinds of collaborators: the
  embedding models (sentence-transformers), the vector store (pymilvus) and the remote
  language model (openai client), plus the file system, the clock and the JSON codec.
  None of the collaborators is part of the program, so each is a parameter: a field of
  the record \<open>env\<close>, a function over an arbitrary world \<open>'w\<close> that returns either
  the exception it raised or its value, and the new world.

  Python strings are sequences of code points; \<open>string\<close> covers the code points below
  256, which is enough for every literal of the program (written with \<open>CHR\<close> where the
  literal is not ASCII). The \<open>logger\<close> calls have no effect on a result and are left out.
\<close>

subsection \<open>Exceptions\<close>

text \<open>
  \<open>HTTPException c d\<close> is FastAPI's exception with \<open>status_code = c\<close> and \<open>detail = d\<close>;
  \<open>Exception m\<close> is any other exception, with its message. The program builds details with
  f-strings that print the caught exception: \<open>DetailOf p e\<close> is \<open>f"{p}{e}"\<close>, with the
  text of \<open>e\<close> kept as the exception it prints.
\<close>

datatype exn = Exception string | HTTPException nat detail
  and detail = Detail string | DetailOf string exn

subsection \<open>Values exchanged with the vector store\<close>

datatype model = SentenceTransformerRef nat

datatype collection = CollectionRef nat

datatype data_type = VARCHAR | FLOAT_VECTOR

datatype field_schema =
  FieldSchema (field_name: string) (dtype: data_type) (max_length: "nat option")
    (is_primary: bool) (dim: "nat option")

datatype collection_schema = CollectionSchema (cs_fields: "field_schema list") (cs_description: string)

datatype index_params = IndexParams (index_metric_type: string) (index_type: string) (nlist: nat)

datatype search_params = SearchParams (search_metric_type: string) (nprobe: nat)

text \<open>The five columns handed to \<open>collection.insert\<close>, in the order of the schema.\<close>

datatype 'f entities =
  Entities (ent_ids: "string list") (ent_document_ids: "string list")
    (ent_contents: "string list") (ent_embeddings: "'f list list")
    (ent_metadata: "string list")

text \<open>
  A search hit and a query row carry the projected output fields. The schema makes
  \<open>content\<close>, \<open>metadata\<close> and \<open>document_id\<close> mandatory VARCHAR columns, so each is a string.
\<close>

datatype hit = Hit (hit_content: string) (hit_metadata: string) (hit_document_id: string)

datatype query_row = QueryRow (row_document_id: string) (row_metadata: string)

text \<open>
  JSON values as the program writes and reads them in a chunk's metadata: strings and
  integers under string keys. A parsed metadata object is a dictionary.
\<close>

datatype jvalue = JStr string | JInt int

type_synonym jdict = "string \<rightharpoonup> jvalue"

text \<open>A decimal literal: \<open>Decimal 7 1\<close> is \<open>0.7\<close>.\<close>

datatype decimal = Decimal int nat

datatype chat_message = ChatMessage (role: string) (message_content: string)

subsection \<open>The collaborators and the trace of calls\<close>

text \<open>Every call the program makes to a stateful collaborator, with its arguments.\<close>

datatype 'f event =
    LoadModel string
  | Encode model "string list"
  | Connect string string string
  | HasCollection string
  | CreateCollection string collection_schema
  | OpenCollection string
  | HasIndex collection
  | CreateIndex collection string index_params
  | Load collection
  | Insert collection "'f entities"
  | Flush collection
  | Search collection "'f list list" string search_params int "string list"
  | Query collection string "string list" nat
  | Delete collection string
  | ChatCompletion string string string "chat_message list" nat decimal
  | TempFileWrite string string
  | Unlink string
  | ReadPdf string
  | ReadText string
  | ReadDocx string
  | Uuid4
  | Now

type_synonym ('w, 'a) io = "'w \<Rightarrow> (exn + 'a) \<times> 'w"

record ('w, 'f) env =
  SentenceTransformer :: "string \<Rightarrow> ('w, model) io"
  model_encode :: "model \<Rightarrow> string list \<Rightarrow> ('w, 'f list list) io"
  connections_connect :: "string \<Rightarrow> string \<Rightarrow> string \<Rightarrow> ('w, unit) io"
  utility_has_collection :: "string \<Rightarrow> ('w, bool) io"
  Collection_create :: "string \<Rightarrow> collection_schema \<Rightarrow> ('w, collection) io"
  Collection_open :: "string \<Rightarrow> ('w, collection) io"
  collection_has_index :: "collection \<Rightarrow> ('w, bool) io"
  collection_create_index :: "collection \<Rightarrow> string \<Rightarrow> index_params \<Rightarrow> ('w, unit) io"
  collection_load :: "collection \<Rightarrow> ('w, unit) io"
  collection_insert :: "collection \<Rightarrow> 'f entities \<Rightarrow> ('w, unit) io"
  collection_flush :: "collection \<Rightarrow> ('w, unit) io"
  collection_search ::
    "collection \<Rightarrow> 'f list list \<Rightarrow> string \<Rightarrow> search_params \<Rightarrow> int \<Rightarrow> string list
      \<Rightarrow> ('w, hit list list) io"
  collection_query :: "collection \<Rightarrow> string \<Rightarrow> string list \<Rightarrow> nat \<Rightarrow> ('w, query_row list) io"
  collection_delete :: "collection \<Rightarrow> string \<Rightarrow> ('w, unit) io"
  chat_completions_create ::
    "string \<Rightarrow> string \<Rightarrow> string \<Rightarrow> chat_message list \<Rightarrow> nat \<Rightarrow> decimal \<Rightarrow> ('w, string) io"
  temp_file_write :: "string \<Rightarrow> string \<Rightarrow> ('w, string) io"
  os_unlink :: "string \<Rightarrow> ('w, unit) io"
  pdf_pages_text :: "string \<Rightarrow> ('w, string list) io"
  read_text_utf8 :: "string \<Rightarrow> ('w, string) io"
  docx_paragraphs_text :: "string \<Rightarrow> ('w, string list) io"
  uuid4_str :: "'w \<Rightarrow> string \<times> 'w"
  now_isoformat :: "'w \<Rightarrow> string \<times> 'w"
  split_text :: "string \<Rightarrow> string list"
  json_dumps :: "jdict \<Rightarrow> string"
  json_loads :: "string \<Rightarrow> exn + jdict"

text \<open>
  The state of the process: the world of the collaborators, the module-level dictionary
  \<open>embedding_models\<close> (a Python dict keeps insertion order, hence an association list) and
  the calls made so far.
\<close>

record ('w, 'f) state =
  world :: 'w
  embedding_models :: "(string \<times> model) list"
  trace :: "'f event list"

type_synonym ('w, 'f, 'a) action = "('w, 'f) state \<Rightarrow> (exn + 'a) \<times> ('w, 'f) state"

definition return :: "'a \<Rightarrow> ('w, 'f, 'a) action" where
  "return x s = (Inr x, s)"

definition raise :: "exn \<Rightarrow> ('w, 'f, 'a) action" where
  "raise e s = (Inl e, s)"

definition bind :: "('w, 'f, 'a) action \<Rightarrow> ('a \<Rightarrow> ('w, 'f, 'b) action) \<Rightarrow> ('w, 'f, 'b) action" where
  "bind m k s = (case m s of (Inl e, s') \<Rightarrow> (Inl e, s') | (Inr x, s') \<Rightarrow> k x s')"

text \<open>\<open>try: m except Exception as e: h e\<close>. Every exception of the model is an \<open>Exception\<close>
  in Python's sense, \<open>HTTPException\<close> included.\<close>

definition try_except :: "('w, 'f, 'a) action \<Rightarrow> (exn \<Rightarrow> ('w, 'f, 'a) action) \<Rightarrow> ('w, 'f, 'a) action" where
  "try_except m h s = (case m s of (Inl e, s') \<Rightarrow> h e s' | (Inr x, s') \<Rightarrow> (Inr x, s'))"

text \<open>A call of a collaborator: it is recorded, then it runs on the world.\<close>

definition call :: "'f event \<Rightarrow> ('w, 'a) io \<Rightarrow> ('w, 'f, 'a) action" where
  "call ev f s =
     (case f (world s) of (r, w') \<Rightarrow> (r, s\<lparr>world := w', trace := trace s @ [ev]\<rparr>))"

text \<open>The same for a collaborator that cannot raise (\<open>uuid.uuid4\<close>, \<open>datetime.now\<close>).\<close>

definition call_total :: "'f event \<Rightarrow> ('w \<Rightarrow> 'a \<times> 'w) \<Rightarrow> ('w, 'f, 'a) action" where
  "call_total ev f s =
     (case f (world s) of (x, w') \<Rightarrow> (Inr x, s\<lparr>world := w', trace := trace s @ [ev]\<rparr>))"

subsection \<open>Configuration\<close>

definition MILVUS_HOST :: string where "MILVUS_HOST = ''localhost''"
definition MILVUS_PORT :: string where "MILVUS_PORT = ''19530''"
definition COLLECTION_NAME :: string where "COLLECTION_NAME = ''documents''"
definition LLM_ENDPOINT :: string where "LLM_ENDPOINT = ''http://localhost:8000/v1''"

subsection \<open>get_embedding_model\<close>

text \<open>
  \<^verbatim>\<open>
  if model_name not in embedding_models:
      embedding_models[model_name] = SentenceTransformer(model_name)
  return embedding_models[model_name]
  \<close>
\<close>

definition get_embedding_model :: "('w, 'f) env \<Rightarrow> string \<Rightarrow> ('w, 'f, model) action" where
  "get_embedding_model env model_name s =
     (case map_of (embedding_models s) model_name of
        Some m \<Rightarrow> return m s
      | None \<Rightarrow>
          bind (call (LoadModel model_name) (SentenceTransformer env model_name))
            (\<lambda>m s'. return m (s'\<lparr>embedding_models := embedding_models s' @ [(model_name, m)]\<rparr>)) s)"

subsection \<open>connect_milvus\<close>

definition schema_fields :: "field_schema list" where
  "schema_fields =
     [FieldSchema ''id'' VARCHAR (Some 100) True None,
      FieldSchema ''document_id'' VARCHAR (Some 100) False None,
      FieldSchema ''content'' VARCHAR (Some 65535) False None,
      FieldSchema ''embedding'' FLOAT_VECTOR None False (Some 384),
      FieldSchema ''metadata'' VARCHAR (Some 1000) False None]"

definition schema :: collection_schema where
  "schema = CollectionSchema schema_fields
     (''Colecci'' @ [CHR 0xF3] @ ''n de documentos para RAG'')"

definition index_params :: index_params where
  "index_params = IndexParams ''COSINE'' ''IVF_FLAT'' 128"

text \<open>
  Every caller uses the default host and port. Any exception of the body, whatever
  its kind, is turned into an HTTP 500.
\<close>

definition connect_milvus :: "('w, 'f) env \<Rightarrow> string \<Rightarrow> string \<Rightarrow> ('w, 'f, collection) action" where
  "connect_milvus env host port =
     try_except
      (bind (call (Connect ''default'' host port) (connections_connect env ''default'' host port)) (\<lambda>_.
       bind (call (HasCollection COLLECTION_NAME) (utility_has_collection env COLLECTION_NAME)) (\<lambda>exists.
       bind (if \<not> exists
             then call (CreateCollection COLLECTION_NAME schema)
                    (Collection_create env COLLECTION_NAME schema)
             else call (OpenCollection COLLECTION_NAME) (Collection_open env COLLECTION_NAME)) (\<lambda>collection.
       bind (call (HasIndex collection) (collection_has_index env collection)) (\<lambda>indexed.
       bind (if \<not> indexed
             then call (CreateIndex collection ''embedding'' index_params)
                    (collection_create_index env collection ''embedding'' index_params)
             else return ()) (\<lambda>_.
       bind (call (Load collection) (collection_load env collection)) (\<lambda>_.
       return collection)))))))
      (\<lambda>e. raise (HTTPException 500 (DetailOf ''Error conectando a Milvus: '' e)))"

subsection \<open>extract_text_from_file\<close>

text \<open>
  The three readers are collaborators; the function concatenates what they return. An
  unsupported type raises a \<open>ValueError\<close> inside the \<open>try\<close>, so it too leaves as HTTP 400.
\<close>

definition extract_text_from_file :: "('w, 'f) env \<Rightarrow> string \<Rightarrow> string \<Rightarrow> ('w, 'f, string) action" where
  "extract_text_from_file env file_path file_type =
     try_except
      (if file_type = ''pdf'' then
         bind (call (ReadPdf file_path) (pdf_pages_text env file_path)) (\<lambda>pages.
         return (concat pages))
       else if file_type = ''txt'' then
         call (ReadText file_path) (read_text_utf8 env file_path)
       else if file_type = ''docx'' then
         bind (call (ReadDocx file_path) (docx_paragraphs_text env file_path)) (\<lambda>paragraphs.
         return (concat (map (\<lambda>paragraph. paragraph @ [CHR 0x0A]) paragraphs)))
       else raise (Exception (''Tipo de archivo no soportado: '' @ file_type)))
      (\<lambda>e. raise (HTTPException 400 (DetailOf ''Error extrayendo texto: '' e)))"

subsection \<open>String helpers of Python used by the handlers\<close>

text \<open>\<open>str(n)\<close> for a natural number.\<close>

fun str_nat :: "nat \<Rightarrow> string" where
  "str_nat n =
     (if n < 10 then [char_of (48 + n)]
      else str_nat (n div 10) @ [char_of (48 + n mod 10)])"

declare str_nat.simps [simp del]

text \<open>\<open>s.split(c)\<close> for a separator of one character: never empty.\<close>

fun split_on :: "char \<Rightarrow> string \<Rightarrow> string list" where
  "split_on c [] = [[]]"
| "split_on c (x # xs) =
     (if x = c then [] # split_on c xs
      else (case split_on c xs of p # ps \<Rightarrow> (x # p) # ps | [] \<Rightarrow> [[x]]))"

text \<open>\<open>s.lower()\<close> on the code points below 256.\<close>

definition lower_char :: "char \<Rightarrow> char" where
  "lower_char c =
     (let n = (of_char c :: nat)
      in if (65 \<le> n \<and> n \<le> 90) \<or> (192 \<le> n \<and> n \<le> 222 \<and> n \<noteq> 215)
         then char_of (n + 32) else c)"

definition lower :: "string \<Rightarrow> string" where
  "lower s = map lower_char s"

text \<open>\<open>sep.join(xs)\<close>.\<close>

fun join :: "string \<Rightarrow> string list \<Rightarrow> string" where
  "join sep [] = []"
| "join sep [x] = x"
| "join sep (x # y # ys) = x @ sep @ join sep (y # ys)"

definition lift :: "exn + 'a \<Rightarrow> ('w, 'f, 'a) action" where
  "lift r = (case r of Inl e \<Rightarrow> raise e | Inr x \<Rightarrow> return x)"

subsection \<open>upload_document\<close>

datatype upload_file = UploadFile (filename: string) (file_bytes: string)

datatype upload_response =
  UploadResponse (upload_status: string) (upload_document_id: string) (upload_filename: string)
    (chunks_count: nat) (upload_message: string)

text \<open>
  The loop over \<open>enumerate(zip(documents, embeddings))\<close>: it appends to the four lists and
  reads the clock once for each chunk.
\<close>

fun prepare_chunks ::
  "('w, 'f) env \<Rightarrow> string \<Rightarrow> string \<Rightarrow> (nat \<times> string \<times> 'f list) list
    \<Rightarrow> string list \<times> string list \<times> 'f list list \<times> string list
    \<Rightarrow> ('w, 'f, string list \<times> string list \<times> 'f list list \<times> string list) action" where
  "prepare_chunks env document_id name [] acc = return acc"
| "prepare_chunks env document_id name ((i, chunk, embedding) # rest)
     (chunk_ids, chunk_contents, chunk_embeddings, chunk_metadata) =
     bind (call_total Now (now_isoformat env)) (\<lambda>upload_date.
     prepare_chunks env document_id name rest
       (chunk_ids @ [document_id @ ''_chunk_'' @ str_nat i],
        chunk_contents @ [chunk],
        chunk_embeddings @ [embedding],
        chunk_metadata @
          [json_dumps env
             [''document_name'' \<mapsto> JStr name, ''chunk_index'' \<mapsto> JInt (int i),
              ''upload_date'' \<mapsto> JStr upload_date]]))"

text \<open>Lines 185 to 240: from the extracted text to the response.\<close>

definition index_text ::
  "('w, 'f) env \<Rightarrow> upload_file \<Rightarrow> string \<Rightarrow> string \<Rightarrow> string \<Rightarrow> ('w, 'f, upload_response) action" where
  "index_text env file embedding_model temp_file_path text =
     (let documents = split_text env text in
      bind (get_embedding_model env embedding_model) (\<lambda>model.
      bind (call (Encode model documents) (model_encode env model documents)) (\<lambda>embeddings.
      bind (connect_milvus env MILVUS_HOST MILVUS_PORT) (\<lambda>collection.
      bind (call_total Uuid4 (uuid4_str env)) (\<lambda>document_id.
      bind (prepare_chunks env document_id (filename file)
              (enumerate 0 (zip documents embeddings)) ([], [], [], []))
        (\<lambda>(chunk_ids, chunk_contents, chunk_embeddings, chunk_metadata).
      let entities =
            Entities chunk_ids (replicate (length chunk_ids) document_id) chunk_contents
              chunk_embeddings chunk_metadata in
      bind (call (Insert collection entities) (collection_insert env collection entities)) (\<lambda>_.
      bind (call (Flush collection) (collection_flush env collection)) (\<lambda>_.
      bind (call (Unlink temp_file_path) (os_unlink env temp_file_path)) (\<lambda>_.
      return
        (UploadResponse ''success'' document_id (filename file) (length documents)
           (''Documento procesado e indexado con '' @ str_nat (length documents)
              @ '' chunks'')))))))))))"

text \<open>
  The extension is checked before the \<open>try\<close>, so an unsupported one leaves as HTTP 400.
  Inside the \<open>try\<close> every exception, the HTTP 400 of \<open>extract_text_from_file\<close> included,
  is caught by \<open>except Exception\<close> and leaves as HTTP 500. The handler removes the temporary
  file when \<open>temp_file_path\<close> is bound, that is when the exception came after the file was
  written (the inner \<open>try_except\<close>), and ignores a failure of that removal. The upload's bytes
  are in the request; \<open>.md\<close> is read as \<open>txt\<close> after the suffix of the temporary file is
  chosen.
\<close>

definition upload_document ::
  "('w, 'f) env \<Rightarrow> upload_file \<Rightarrow> string \<Rightarrow> ('w, 'f, upload_response) action" where
  "upload_document env file embedding_model =
     (let file_extension = lower (last (split_on CHR ''.'' (filename file))) in
      if file_extension \<notin> set [''pdf'', ''txt'', ''docx'', ''md'']
      then raise (HTTPException 400 (Detail ''Tipo de archivo no soportado''))
      else
        try_except
         (bind (call (TempFileWrite (''.'' @ file_extension) (file_bytes file))
                  (temp_file_write env (''.'' @ file_extension) (file_bytes file)))
            (\<lambda>temp_file_path.
          try_except
           (bind (extract_text_from_file env temp_file_path
                    (if file_extension = ''md'' then ''txt'' else file_extension)) (\<lambda>text.
            index_text env file embedding_model temp_file_path text))
           (\<lambda>e.
            bind (try_except (call (Unlink temp_file_path) (os_unlink env temp_file_path))
                    (\<lambda>_. return ())) (\<lambda>_.
            raise e))))
         (\<lambda>e. raise (HTTPException 500 (DetailOf ''Error procesando documento: '' e))))"

subsection \<open>ask_question\<close>

datatype ask_request = AskRequest (question: string) (embedding_model: string) (top_k: int)

datatype ask_response =
  AskResponse (resp_answer: string) (resp_sources: "jvalue set") (resp_context_chunks: nat)
    (resp_question: string)

definition search_params :: search_params where
  "search_params = SearchParams ''COSINE'' 10"

definition output_fields :: "string list" where
  "output_fields = [''content'', ''metadata'', ''document_id'']"

text \<open>
  The loop over the hits of the first result list: the content is appended, the metadata
  parsed (\<open>json.loads\<close> may raise), and the document name, when the object has one, added
  to the set.
\<close>

fun collect_hits ::
  "('w, 'f) env \<Rightarrow> hit list \<Rightarrow> string list \<times> jvalue set \<Rightarrow> exn + string list \<times> jvalue set" where
  "collect_hits env [] acc = Inr acc"
| "collect_hits env (h # hs) (relevant_chunks, sources) =
     (case json_loads env (hit_metadata h) of
        Inl e \<Rightarrow> Inl e
      | Inr metadata \<Rightarrow>
          collect_hits env hs
            (relevant_chunks @ [hit_content h],
             (case metadata ''document_name'' of
                Some document_name \<Rightarrow> insert document_name sources
              | None \<Rightarrow> sources)))"

text \<open>Lines 257 to 287: from the request to the relevant chunks and their sources.\<close>

definition retrieve ::
  "('w, 'f) env \<Rightarrow> ask_request \<Rightarrow> ('w, 'f, string list \<times> jvalue set) action" where
  "retrieve env request =
     bind (get_embedding_model env (embedding_model request)) (\<lambda>model.
     bind (call (Encode model [question request]) (model_encode env model [question request]))
       (\<lambda>question_embedding.
     bind (connect_milvus env MILVUS_HOST MILVUS_PORT) (\<lambda>collection.
     bind (call (Search collection question_embedding ''embedding'' search_params
                   (top_k request) output_fields)
             (collection_search env collection question_embedding ''embedding'' search_params
                   (top_k request) output_fields)) (\<lambda>results.
     (case results of
        [] \<Rightarrow> raise (HTTPException 404 (Detail ''No se encontraron documentos relevantes''))
      | hits # _ \<Rightarrow>
          if hits = []
          then raise (HTTPException 404 (Detail ''No se encontraron documentos relevantes''))
          else lift (collect_hits env hits ([], {})))))))"

definition build_prompt :: "string \<Rightarrow> string \<Rightarrow> string" where
  "build_prompt context q =
     ''Bas'' @ [CHR 0xE1] @ ''ndote en el siguiente contexto, responde la pregunta de manera precisa y completa.''
       @ [CHR 0x0A, CHR 0x0A] @ ''Contexto:'' @ [CHR 0x0A] @ context
       @ [CHR 0x0A, CHR 0x0A] @ ''Pregunta: '' @ q
       @ [CHR 0x0A, CHR 0x0A] @ ''Respuesta:''"

definition system_message :: string where
  "system_message =
     ''Eres un asistente '' @ [CHR 0xFA] @ ''til que responde preguntas bas'' @ [CHR 0xE1]
       @ ''ndose en el contexto proporcionado.''"

definition fallback_answer :: "string \<Rightarrow> string" where
  "fallback_answer context =
     ''Error conectando al LLM. Contexto encontrado:'' @ [CHR 0x0A, CHR 0x0A]
       @ take 500 context @ ''...''"

text \<open>
  Lines 289 to 324: the context, the prompt and the call of the remote model, whose
  failure of any kind is replaced by the fallback answer. The collaborator stands for
  the whole of \<open>client.chat.completions.create(...).choices[0].message.content\<close>.
\<close>

definition generate_answer :: "('w, 'f) env \<Rightarrow> string \<Rightarrow> string list \<Rightarrow> ('w, 'f, string) action" where
  "generate_answer env q relevant_chunks =
     (let context = join [CHR 0x0A, CHR 0x0A] relevant_chunks;
          prompt = build_prompt context q;
          messages = [ChatMessage ''system'' system_message, ChatMessage ''user'' prompt] in
      try_except
        (call (ChatCompletion LLM_ENDPOINT ''dummy'' ''gemma'' messages 1000 (Decimal 7 1))
           (chat_completions_create env LLM_ENDPOINT ''dummy'' ''gemma'' messages 1000 (Decimal 7 1)))
        (\<lambda>llm_error. return (fallback_answer context)))"

text \<open>
  The whole body is inside one \<open>try\<close>: the HTTP 404 raised for an empty result is an
  \<open>Exception\<close> as well, and \<open>except Exception\<close> catches it.
\<close>

definition ask_question :: "('w, 'f) env \<Rightarrow> ask_request \<Rightarrow> ('w, 'f, ask_response) action" where
  "ask_question env request =
     try_except
      (bind (retrieve env request) (\<lambda>(relevant_chunks, sources).
       bind (generate_answer env (question request) relevant_chunks) (\<lambda>answer.
       return (AskResponse answer sources (length relevant_chunks) (question request)))))
      (\<lambda>e. raise (HTTPException 500 (DetailOf ''Error procesando pregunta: '' e)))"

subsection \<open>list_documents\<close>

datatype document_info =
  DocumentInfo (doc_id: string) (doc_name: jvalue) (doc_upload_date: jvalue) (doc_chunks: nat)

definition get_default :: "jdict \<Rightarrow> string \<Rightarrow> jvalue \<Rightarrow> jvalue" where
  "get_default d k v = (case d k of Some x \<Rightarrow> x | None \<Rightarrow> v)"

definition add_chunk :: "string \<Rightarrow> string \<times> document_info \<Rightarrow> string \<times> document_info" where
  "add_chunk k e =
     (if fst e = k
      then (fst e, DocumentInfo (doc_id (snd e)) (doc_name (snd e)) (doc_upload_date (snd e))
                     (doc_chunks (snd e) + 1))
      else e)"

text \<open>
  The loop that groups the rows: \<open>documents\<close> is a dict keyed by document id, in
  insertion order. The metadata is parsed only for the first row of each document.
\<close>

fun group_rows ::
  "('w, 'f) env \<Rightarrow> query_row list \<Rightarrow> (string \<times> document_info) list
    \<Rightarrow> exn + (string \<times> document_info) list" where
  "group_rows env [] documents = Inr documents"
| "group_rows env (result # rest) documents =
     (let d = row_document_id result in
      case (if d \<notin> fst ` set documents
            then (case json_loads env (row_metadata result) of
                    Inl e \<Rightarrow> Inl e
                  | Inr metadata \<Rightarrow>
                      Inr (documents @
                        [(d, DocumentInfo d
                               (get_default metadata ''document_name'' (JStr ''Documento desconocido''))
                               (get_default metadata ''upload_date'' (JStr [])) 0)]))
            else Inr documents) of
        Inl e \<Rightarrow> Inl e
      | Inr documents' \<Rightarrow> group_rows env rest (map (add_chunk d) documents'))"

definition list_expr :: string where
  "list_expr = ''document_id != '' @ [CHR 0x27, CHR 0x27]"

definition list_documents :: "('w, 'f) env \<Rightarrow> ('w, 'f, document_info list) action" where
  "list_documents env =
     try_except
      (bind (connect_milvus env MILVUS_HOST MILVUS_PORT) (\<lambda>collection.
       bind (call (Query collection list_expr [''document_id'', ''metadata''] 1000)
               (collection_query env collection list_expr [''document_id'', ''metadata''] 1000))
         (\<lambda>results.
       bind (lift (group_rows env results [])) (\<lambda>documents.
       return (map snd documents)))))
      (\<lambda>e. raise (HTTPException 500 (DetailOf ''Error listando documentos: '' e)))"

subsection \<open>delete_document\<close>

datatype delete_response = DeleteResponse (delete_status: string) (delete_message: string)

definition delete_expr :: "string \<Rightarrow> string" where
  "delete_expr document_id = ''document_id == '' @ [CHR 0x22] @ document_id @ [CHR 0x22]"

definition delete_document :: "('w, 'f) env \<Rightarrow> string \<Rightarrow> ('w, 'f, delete_response) action" where
  "delete_document env document_id =
     try_except
      (bind (connect_milvus env MILVUS_HOST MILVUS_PORT) (\<lambda>collection.
       bind (call (Delete collection (delete_expr document_id))
               (collection_delete env collection (delete_expr document_id))) (\<lambda>_.
       return (DeleteResponse ''success'' (''Documento '' @ document_id @ '' eliminado'')))))
      (\<lambda>e. raise (HTTPException 500 (DetailOf ''Error eliminando documento: '' e)))"

subsection \<open>The process serving requests one after the other\<close>

datatype request =
    Upload upload_file string
  | Ask ask_request
  | ListDocuments
  | DeleteDocument string

fun serve :: "('w, 'f) env \<Rightarrow> request \<Rightarrow> ('w, 'f) state \<Rightarrow> ('w, 'f) state" where
  "serve env (Upload file model_name) s = snd (upload_document env file model_name s)"
| "serve env (Ask request) s = snd (ask_question env request s)"
| "serve env ListDocuments s = snd (list_documents env s)"
| "serve env (DeleteDocument document_id) s = snd (delete_document env document_id s)"

subsection \<open>The properties in the words of the specification\<close>

text \<open>
  The set of distinct \<open>document_name\<close> values across the matches: the names found in the
  parsed metadata of the hits.
\<close>

definition document_names :: "('w, 'f) env \<Rightarrow> hit list \<Rightarrow> jvalue set" where
  "document_names env hits =
     {n. \<exists>h metadata. h \<in> set hits \<and> json_loads env (hit_metadata h) = Inr metadata
           \<and> metadata ''document_name'' = Some n}"

text \<open>The matched content strings, in the order of the hits, joined by a blank line.\<close>

definition grounding_context :: "hit list \<Rightarrow> string" where
  "grounding_context hits = join [CHR 0x0A, CHR 0x0A] (map hit_content hits)"

text \<open>The store honours the limit of a query: it returns at most that many rows.\<close>

definition honours_limit :: "('w, 'f) env \<Rightarrow> bool" where
  "honours_limit env \<longleftrightarrow>
     (\<forall>c e outs n w rows w'.
        collection_query env c e outs n w = (Inr rows, w') \<longrightarrow> length rows \<le> n)"

subsection \<open>An in-memory stand-in for the collaborators\<close>

text \<open>
  To run the handlers on concrete requests, the collaborators are replaced by a small
  store in memory: one collection with its vector dimension, its rows in insertion order,
  one temporary file and a counter for fresh objects. The store rejects vectors of the
  wrong dimension and a search limit that is not positive, as Milvus does, and an insert
  of an empty batch, on which the Milvus client raises an \<open>IndexError\<close>; a search
  returns the first \<open>limit\<close> rows (all rows are equally similar). The embedding model has
  output dimension \<open>d\<close>, and the language model answers \<open>reply\<close>. The chunker returns a short
  text as one chunk and no chunk for the empty text; the JSON codec keeps the document
  name only.
\<close>

datatype stored_row =
  StoredRow (stored_id: string) (stored_document_id: string) (stored_content: string)
    (stored_embedding: "int list") (stored_metadata: string)

record mem =
  mem_dim :: "nat option"
  mem_indexed :: bool
  mem_rows :: "stored_row list"
  mem_file :: string
  mem_objects :: nat

definition vector_dim :: "collection_schema \<Rightarrow> nat" where
  "vector_dim sch =
     (case filter (\<lambda>f. dtype f = FLOAT_VECTOR) (cs_fields sch) of
        [] \<Rightarrow> 0
      | f # _ \<Rightarrow> (case dim f of None \<Rightarrow> 0 | Some n \<Rightarrow> n))"

fun rows_of :: "int entities \<Rightarrow> stored_row list" where
  "rows_of (Entities (i # is) (d # ds) (c # cs) (v # vs) (m # ms)) =
     StoredRow i d c v m # rows_of (Entities is ds cs vs ms)"
| "rows_of _ = []"

definition hit_of :: "stored_row \<Rightarrow> hit" where
  "hit_of r = Hit (stored_content r) (stored_metadata r) (stored_document_id r)"

definition row_of :: "stored_row \<Rightarrow> query_row" where
  "row_of r = QueryRow (stored_document_id r) (stored_metadata r)"

definition mem_env :: "nat \<Rightarrow> exn + string \<Rightarrow> (mem, int) env" where
  "mem_env d reply =
     \<lparr>SentenceTransformer = (\<lambda>name w.
        (Inr (SentenceTransformerRef (mem_objects w)), w\<lparr>mem_objects := mem_objects w + 1\<rparr>)),
      model_encode = (\<lambda>m texts w. (Inr (map (\<lambda>t. replicate d 0) texts), w)),
      connections_connect = (\<lambda>alias host port w. (Inr (), w)),
      utility_has_collection = (\<lambda>name w. (Inr (mem_dim w \<noteq> None), w)),
      Collection_create = (\<lambda>name sch w. (Inr (CollectionRef 0), w\<lparr>mem_dim := Some (vector_dim sch)\<rparr>)),
      Collection_open = (\<lambda>name w. (Inr (CollectionRef 0), w)),
      collection_has_index = (\<lambda>c w. (Inr (mem_indexed w), w)),
      collection_create_index = (\<lambda>c f p w. (Inr (), w\<lparr>mem_indexed := True\<rparr>)),
      collection_load = (\<lambda>c w. (Inr (), w)),
      collection_insert = (\<lambda>c ents w.
        if ent_ids ents = [] then (Inl (Exception ''list index out of range''), w)
        else if list_all (\<lambda>v. Some (length v) = mem_dim w) (ent_embeddings ents)
        then (Inr (), w\<lparr>mem_rows := mem_rows w @ rows_of ents\<rparr>)
        else (Inl (Exception ''vector dimension mismatch''), w)),
      collection_flush = (\<lambda>c w. (Inr (), w)),
      collection_search = (\<lambda>c data f p limit outs w.
        if limit \<le> 0 then (Inl (Exception ''limit must be positive''), w)
        else if list_all (\<lambda>v. Some (length v) = mem_dim w) data
        then (Inr (map (\<lambda>v. map hit_of (take (nat limit) (mem_rows w))) data), w)
        else (Inl (Exception ''vector dimension mismatch''), w)),
      collection_query = (\<lambda>c e outs limit w.
        if e = list_expr
        then (Inr (map row_of (take limit (filter (\<lambda>r. stored_document_id r \<noteq> []) (mem_rows w)))), w)
        else (Inl (Exception ''unsupported expression''), w)),
      collection_delete = (\<lambda>c e w.
        (Inr (), w\<lparr>mem_rows := filter (\<lambda>r. delete_expr (stored_document_id r) \<noteq> e) (mem_rows w)\<rparr>)),
      chat_completions_create = (\<lambda>url key m messages max_tokens temperature w. (reply, w)),
      temp_file_write = (\<lambda>suffix content w. (Inr (''/tmp/upload'' @ suffix), w\<lparr>mem_file := content\<rparr>)),
      os_unlink = (\<lambda>path w. (Inr (), w)),
      pdf_pages_text = (\<lambda>path w. (Inr [mem_file w], w)),
      read_text_utf8 = (\<lambda>path w. (Inr (mem_file w), w)),
      docx_paragraphs_text = (\<lambda>path w. (Inr [mem_file w], w)),
      uuid4_str = (\<lambda>w. (''doc-'' @ str_nat (mem_objects w), w\<lparr>mem_objects := mem_objects w + 1\<rparr>)),
      now_isoformat = (\<lambda>w. (''2024-01-01T00:00:00'', w)),
      split_text = (\<lambda>text. if text = [] then [] else [text]),
      json_dumps = (\<lambda>d. case d ''document_name'' of Some (JStr n) \<Rightarrow> n | _ \<Rightarrow> []),
      json_loads = (\<lambda>s. Inr [''document_name'' \<mapsto> JStr s])\<rparr>"

definition mem_empty :: mem where
  "mem_empty = \<lparr>mem_dim = None, mem_indexed = False, mem_rows = [], mem_file = [], mem_objects = 0\<rparr>"

text \<open>A store whose collection exists, with the dimension of the schema, and holds \<open>rows\<close>.\<close>

definition mem_with :: "stored_row list \<Rightarrow> mem" where
  "mem_with rows = \<lparr>mem_dim = Some 384, mem_indexed = True, mem_rows = rows, mem_file = [], mem_objects = 0\<rparr>"

definition start :: "'w \<Rightarrow> ('w, 'f) state" where
  "start w = \<lparr>world = w, embedding_models = [], trace = []\<rparr>"

text \<open>Stores used in the examples.\<close>

definition facts_rows :: "stored_row list" where
  "facts_rows =
     [StoredRow ''d1_chunk_0'' ''d1'' ''Paris is in France.'' (replicate 384 0) ''facts.txt'',
      StoredRow ''d2_chunk_0'' ''d2'' ''Rome is in Italy.'' (replicate 384 0) ''notes.md'',
      StoredRow ''d1_chunk_1'' ''d1'' ''Lima is in Peru.'' (replicate 384 0) ''facts.txt'']"

definition thousand_and_one :: "stored_row list" where
  "thousand_and_one =
     replicate 1000 (StoredRow ''dA_chunk'' ''dA'' ''text'' (replicate 384 0) ''a.txt'')
       @ [StoredRow ''dB_chunk_0'' ''dB'' ''text'' (replicate 384 0) ''b.txt'']"

subsection \<open>Proof devices\<close>

text \<open>An action keeps the cache entry of \<open>M\<close>: if \<open>M\<close> is cached as \<open>p\<close> before, it is after.\<close>

definition keeps :: "string \<Rightarrow> model \<Rightarrow> ('w, 'f, 'a) action \<Rightarrow> bool" where
  "keeps M p m \<longleftrightarrow>
     (\<forall>s. map_of (embedding_models s) M = Some p
        \<longrightarrow> map_of (embedding_models (snd (m s))) M = Some p)"

text \<open>
  An action only appends to the trace, and every event it appends satisfies \<open>P\<close>.
\<close>

definition appends :: "('f event \<Rightarrow> bool) \<Rightarrow> ('w, 'f, 'a) action \<Rightarrow> bool" where
  "appends P m \<longleftrightarrow> (\<forall>s. \<exists>evs. trace (snd (m s)) = trace s @ evs \<and> list_all P evs)"

text \<open>The calls of \<open>connect_milvus\<close>; the calls of \<open>delete_document\<close>; any call.\<close>

definition connection_event :: "'f event \<Rightarrow> bool" where
  "connection_event ev =
     (case ev of
        Connect a h p \<Rightarrow> True
      | HasCollection n \<Rightarrow> True
      | CreateCollection n sch \<Rightarrow> n = COLLECTION_NAME \<and> sch = schema
      | OpenCollection n \<Rightarrow> True
      | HasIndex c \<Rightarrow> True
      | CreateIndex c f p \<Rightarrow> True
      | Load c \<Rightarrow> True
      | _ \<Rightarrow> False)"

definition delete_event :: "'f event \<Rightarrow> bool" where
  "delete_event ev = (case ev of Delete c e \<Rightarrow> True | _ \<Rightarrow> connection_event ev)"

definition any_event :: "'f event \<Rightarrow> bool" where
  "any_event ev = True"

text \<open>An event creates no collection, or one of vector dimension 384.\<close>

definition creates_384 :: "'f event \<Rightarrow> bool" where
  "creates_384 ev = (case ev of CreateCollection n sch \<Rightarrow> vector_dim sch = 384 | _ \<Rightarrow> True)"

text \<open>The parts of \<open>ask_question\<close> after the search, and its handler.\<close>

definition handle_results :: "('w, 'f) env \<Rightarrow> hit list list \<Rightarrow> ('w, 'f, string list \<times> jvalue set) action" where
  "handle_results env results =
     (case results of
        [] \<Rightarrow> raise (HTTPException 404 (Detail ''No se encontraron documentos relevantes''))
      | hits # _ \<Rightarrow>
          if hits = []
          then raise (HTTPException 404 (Detail ''No se encontraron documentos relevantes''))
          else lift (collect_hits env hits ([], {})))"

definition respond :: "('w, 'f) env \<Rightarrow> ask_request \<Rightarrow> string list \<times> jvalue set \<Rightarrow> ('w, 'f, ask_response) action" where
  "respond env request =
     (\<lambda>(relevant_chunks, sources).
       bind (generate_answer env (question request) relevant_chunks) (\<lambda>answer.
       return (AskResponse answer sources (length relevant_chunks) (question request))))"

definition ask_error :: "exn \<Rightarrow> ('w, 'f, ask_response) action" where
  "ask_error = (\<lambda>e. raise (HTTPException 500 (DetailOf ''Error procesando pregunta: '' e)))"

text \<open>The sum of the chunk counts of a listing.\<close>

definition total_chunks :: "(string \<times> document_info) list \<Rightarrow> nat" where
  "total_chunks documents = sum_list (map (\<lambda>e. doc_chunks (snd e)) documents)"

section \<open>Running the handlers\<close>

lemmas run_defs =
  bind_def return_def raise_def try_except_def call_def call_total_def lift_def
  connect_milvus_def get_embedding_model_def extract_text_from_file_def

lemmas mem_defs =
  mem_env_def mem_empty_def mem_with_def start_def vector_dim_def hit_of_def row_of_def
  MILVUS_HOST_def MILVUS_PORT_def COLLECTION_NAME_def schema_def schema_fields_def
  index_params_def

lemmas ask_defs =
  ask_question_def retrieve_def generate_answer_def search_params_def output_fields_def
  LLM_ENDPOINT_def facts_rows_def Let_def

lemmas upload_defs =
  upload_document_def index_text_def lower_def lower_char_def Let_def str_nat.simps
  char_of_def bit_Suc_0_iff

lemma pair_of_fst: "fst p = a \<Longrightarrow> p = (a, snd p)"
  by (cases p) simp


lemma bind_assoc: "bind (bind m f) g = bind m (\<lambda>x. bind (f x) g)"
  by (rule ext) (simp add: bind_def split: prod.splits sum.splits)

lemma bind_InrE:
  assumes "bind m k s = (Inr y, s')"
  obtains x t where "m s = (Inr x, t)" and "k x t = (Inr y, s')"
  using assms by (auto simp: bind_def split: prod.splits sum.splits)

lemma call_InrD:
  assumes "call ev f s = (Inr x, s')"
  shows "f (world s) = (Inr x, world s') \<and> trace s' = trace s @ [ev]"
  using assms by (auto simp: call_def split: prod.splits)

lemma try_bind_Inr:
  "m s = (Inr x, s') \<Longrightarrow> try_except (bind m k) h s = try_except (k x) h s'"
  by (simp add: try_except_def bind_def)

lemma try_bind_Inl:
  "m s = (Inl e, s') \<Longrightarrow> try_except (bind m k) h s = h e s'"
  by (simp add: try_except_def bind_def)

lemma try_except_InrE:
  assumes "try_except m h s = (Inr x, s')"
    and "\<And>e t. h e t \<noteq> (Inr x, s')"
  shows "m s = (Inr x, s')"
  using assms by (auto simp: try_except_def split: prod.splits sum.splits)

section \<open>The embedding cache\<close>

lemma keeps_return: "keeps M p (return x)"
  by (simp add: keeps_def return_def)

lemma keeps_raise: "keeps M p (raise e)"
  by (simp add: keeps_def raise_def)

lemma keeps_call: "keeps M p (call ev f)"
  by (simp add: keeps_def call_def split: prod.splits)

lemma keeps_call_total: "keeps M p (call_total ev f)"
  by (simp add: keeps_def call_total_def split: prod.splits)

lemma keeps_lift: "keeps M p (lift r)"
  by (cases r) (simp_all add: lift_def keeps_return keeps_raise)

lemma keeps_bind:
  assumes "keeps M p m" and "\<And>x. keeps M p (k x)"
  shows "keeps M p (bind m k)"
  unfolding keeps_def
proof (intro allI impI)
  fix s :: "('a, 'b) state"
  assume c: "map_of (embedding_models s) M = Some p"
  obtain r s' where ms: "m s = (r, s')" by (cases "m s")
  from assms(1) c ms have c': "map_of (embedding_models s') M = Some p"
    by (auto simp: keeps_def)
  show "map_of (embedding_models (snd (bind m k s))) M = Some p"
  proof (cases r)
    case (Inl e)
    with ms c' show ?thesis by (simp add: bind_def)
  next
    case (Inr x)
    from assms(2) [of x] c' have "map_of (embedding_models (snd (k x s'))) M = Some p"
      by (simp add: keeps_def)
    with ms Inr show ?thesis by (simp add: bind_def)
  qed
qed

lemma keeps_try_except:
  assumes "keeps M p m" and "\<And>e. keeps M p (h e)"
  shows "keeps M p (try_except m h)"
  unfolding keeps_def
proof (intro allI impI)
  fix s :: "('a, 'b) state"
  assume c: "map_of (embedding_models s) M = Some p"
  obtain r s' where ms: "m s = (r, s')" by (cases "m s")
  from assms(1) c ms have c': "map_of (embedding_models s') M = Some p"
    by (auto simp: keeps_def)
  show "map_of (embedding_models (snd (try_except m h s))) M = Some p"
  proof (cases r)
    case (Inl e)
    from assms(2) [of e] c' have "map_of (embedding_models (snd (h e s'))) M = Some p"
      by (simp add: keeps_def)
    with ms Inl show ?thesis by (simp add: try_except_def)
  next
    case (Inr x)
    with ms c' show ?thesis by (simp add: try_except_def)
  qed
qed

lemma keeps_get_embedding_model: "keeps M p (get_embedding_model env N)"
  unfolding keeps_def
  by (auto simp: get_embedding_model_def return_def bind_def call_def
      split: option.splits prod.splits sum.splits)

lemmas keeps_intros =
  keeps_return keeps_raise keeps_call keeps_call_total keeps_lift keeps_bind keeps_try_except
  keeps_get_embedding_model

lemma keeps_connect_milvus: "keeps M p (connect_milvus env host port)"
  unfolding connect_milvus_def
  by (intro keeps_intros) (auto intro: keeps_intros)

lemma keeps_extract: "keeps M p (extract_text_from_file env path t)"
  unfolding extract_text_from_file_def
  by (intro keeps_intros) (auto intro!: keeps_intros)

lemma keeps_prepare_chunks: "keeps M p (prepare_chunks env d n xs acc)"
proof (induction xs arbitrary: acc)
  case Nil
  show ?case by (simp add: keeps_return)
next
  case (Cons x xs)
  obtain i c v where x: "x = (i, c, v)" by (cases x)
  obtain a1 a2 a3 a4 where acc: "acc = (a1, a2, a3, a4)" by (cases acc)
  show ?case unfolding x acc prepare_chunks.simps
    by (intro keeps_bind keeps_call_total Cons.IH)
qed

lemma keeps_index_text: "keeps M p (index_text env file em path t)"
  unfolding index_text_def Let_def
  by (intro keeps_intros keeps_connect_milvus keeps_prepare_chunks)
     (auto simp: Let_def split: prod.splits intro!: keeps_intros)

lemma keeps_upload: "keeps M p (upload_document env file em)"
  unfolding upload_document_def Let_def
  by (auto intro!: keeps_intros keeps_extract keeps_index_text)

lemma keeps_retrieve: "keeps M p (retrieve env request)"
  unfolding retrieve_def
  by (intro keeps_intros keeps_connect_milvus) (auto split: list.splits intro!: keeps_intros)

lemma keeps_generate: "keeps M p (generate_answer env q chunks)"
  unfolding generate_answer_def Let_def
  by (intro keeps_intros)

lemma keeps_ask: "keeps M p (ask_question env request)"
  unfolding ask_question_def
  by (intro keeps_intros keeps_retrieve) (auto split: prod.splits intro!: keeps_intros keeps_generate)

lemma keeps_list: "keeps M p (list_documents env)"
  unfolding list_documents_def
  by (intro keeps_intros keeps_connect_milvus)

lemma keeps_delete: "keeps M p (delete_document env d)"
  unfolding delete_document_def
  by (intro keeps_intros keeps_connect_milvus)

lemma serve_keeps:
  assumes "map_of (embedding_models s) M = Some p"
  shows "map_of (embedding_models (serve env r s)) M = Some p"
proof (cases r)
  case (Upload f em)
  have "keeps M p (upload_document env f em)" by (rule keeps_upload)
  with assms Upload show ?thesis by (simp add: keeps_def)
next
  case (Ask request)
  have "keeps M p (ask_question env request)" by (rule keeps_ask)
  with assms Ask show ?thesis by (simp add: keeps_def)
next
  case ListDocuments
  have "keeps M p (list_documents env)" by (rule keeps_list)
  with assms ListDocuments show ?thesis by (simp add: keeps_def)
next
  case (DeleteDocument d)
  have "keeps M p (delete_document env d)" by (rule keeps_delete)
  with assms DeleteDocument show ?thesis by (simp add: keeps_def)
qed

lemma fold_serve_keeps:
  "map_of (embedding_models s) M = Some p
    \<Longrightarrow> map_of (embedding_models (fold (serve env) rs s)) M = Some p"
  by (induction rs arbitrary: s) (simp_all add: serve_keeps)

lemma get_embedding_model_stores:
  "get_embedding_model env M s = (Inr p, s1) \<Longrightarrow> map_of (embedding_models s1) M = Some p"
  by (auto simp: get_embedding_model_def return_def bind_def call_def map_add_def
      split: option.splits prod.splits sum.splits)

lemma get_embedding_model_hit:
  "map_of (embedding_models s) M = Some p \<Longrightarrow> get_embedding_model env M s = (Inr p, s)"
  by (simp add: get_embedding_model_def return_def)

text \<open>
  C7. For every model identifier \<open>M\<close>, once \<open>get_embedding_model M\<close> has returned the
  provider \<open>p\<close>, the cache holds \<open>p\<close> under \<open>M\<close>; a second call returns the very same
  \<open>p\<close> and leaves the state as it is: no call to a collaborator is added to the trace,
  so nothing is loaded. The entry is never evicted: after any sequence of requests served
  by the process the call still returns \<open>p\<close> and changes nothing.
\<close>

theorem get_embedding_model_same_instance:
  assumes "get_embedding_model env M s = (Inr p, s1)"
  shows "map_of (embedding_models s1) M = Some p
    \<and> get_embedding_model env M s1 = (Inr p, s1)
    \<and> (\<forall>rs. get_embedding_model env M (fold (serve env) rs s1) = (Inr p, fold (serve env) rs s1))"
  using get_embedding_model_stores [OF assms]
  by (simp add: get_embedding_model_hit fold_serve_keeps)

theorem get_embedding_model_same_instance_witness:
  "get_embedding_model (mem_env 384 (Inr ''ok'')) ''all-MiniLM-L6-v2'' (start mem_empty)
     = (Inr (SentenceTransformerRef 0),
        \<lparr>world = mem_empty\<lparr>mem_objects := 1\<rparr>,
         embedding_models = [(''all-MiniLM-L6-v2'', SentenceTransformerRef 0)],
         trace = [LoadModel ''all-MiniLM-L6-v2'']\<rparr>)
   \<and> get_embedding_model (mem_env 384 (Inr ''ok'')) ''all-MiniLM-L6-v2''
        \<lparr>world = mem_empty\<lparr>mem_objects := 1\<rparr>,
         embedding_models = [(''all-MiniLM-L6-v2'', SentenceTransformerRef 0)],
         trace = [LoadModel ''all-MiniLM-L6-v2'']\<rparr>
     = (Inr (SentenceTransformerRef 0),
        \<lparr>world = mem_empty\<lparr>mem_objects := 1\<rparr>,
         embedding_models = [(''all-MiniLM-L6-v2'', SentenceTransformerRef 0)],
         trace = [LoadModel ''all-MiniLM-L6-v2'']\<rparr>)"
proof -
  have first:
    "get_embedding_model (mem_env 384 (Inr ''ok'')) ''all-MiniLM-L6-v2'' (start mem_empty)
       = (Inr (SentenceTransformerRef 0),
          \<lparr>world = mem_empty\<lparr>mem_objects := 1\<rparr>,
           embedding_models = [(''all-MiniLM-L6-v2'', SentenceTransformerRef 0)],
           trace = [LoadModel ''all-MiniLM-L6-v2'']\<rparr>)"
    by (simp add: get_embedding_model_def start_def mem_env_def mem_empty_def bind_def
        call_def return_def)
  from get_embedding_model_same_instance [OF first] first show ?thesis
    by blast
qed

section \<open>What a handler adds to the trace\<close>

lemma appends_return: "appends P (return x)"
  by (simp add: appends_def return_def)

lemma appends_raise: "appends P (raise e)"
  by (simp add: appends_def raise_def)

lemma appends_lift: "appends P (lift r)"
  by (cases r) (simp_all add: lift_def appends_return appends_raise)

lemma appends_call: "P ev \<Longrightarrow> appends P (call ev f)"
  by (simp add: appends_def call_def split: prod.splits)

lemma appends_call_total: "P ev \<Longrightarrow> appends P (call_total ev f)"
  by (simp add: appends_def call_total_def split: prod.splits)

lemma appends_bind:
  assumes "appends P m" and "\<And>x. appends P (k x)"
  shows "appends P (bind m k)"
  unfolding appends_def
proof
  fix s
  obtain r s' where ms: "m s = (r, s')" by (cases "m s")
  from assms(1) have "\<exists>evs. trace (snd (m s)) = trace s @ evs \<and> list_all P evs"
    unfolding appends_def by blast
  with ms obtain evs where evs: "trace s' = trace s @ evs" "list_all P evs"
    by auto
  show "\<exists>evs. trace (snd (bind m k s)) = trace s @ evs \<and> list_all P evs"
  proof (cases r)
    case (Inl e)
    with ms evs show ?thesis by (simp add: bind_def)
  next
    case (Inr x)
    from assms(2) [of x] have
      "\<exists>evs. trace (snd (k x s')) = trace s' @ evs \<and> list_all P evs"
      unfolding appends_def by blast
    then obtain evs' where
      "trace (snd (k x s')) = trace s' @ evs'" "list_all P evs'"
      by auto
    with ms Inr evs have
      "trace (snd (bind m k s)) = trace s @ (evs @ evs') \<and> list_all P (evs @ evs')"
      by (simp add: bind_def)
    then show ?thesis by blast
  qed
qed

lemma appends_try_except:
  assumes "appends P m" and "\<And>e. appends P (h e)"
  shows "appends P (try_except m h)"
  unfolding appends_def
proof
  fix s
  obtain r s' where ms: "m s = (r, s')" by (cases "m s")
  from assms(1) have "\<exists>evs. trace (snd (m s)) = trace s @ evs \<and> list_all P evs"
    unfolding appends_def by blast
  with ms obtain evs where evs: "trace s' = trace s @ evs" "list_all P evs"
    by auto
  show "\<exists>evs. trace (snd (try_except m h s)) = trace s @ evs \<and> list_all P evs"
  proof (cases r)
    case (Inl e)
    from assms(2) [of e] have
      "\<exists>evs. trace (snd (h e s')) = trace s' @ evs \<and> list_all P evs"
      unfolding appends_def by blast
    then obtain evs' where
      "trace (snd (h e s')) = trace s' @ evs'" "list_all P evs'"
      by auto
    with ms Inl evs have
      "trace (snd (try_except m h s)) = trace s @ (evs @ evs') \<and> list_all P (evs @ evs')"
      by (simp add: try_except_def)
    then show ?thesis by blast
  next
    case (Inr x)
    with ms evs show ?thesis by (simp add: try_except_def)
  qed
qed

lemma appends_connect_milvus:
  assumes "\<And>ev. connection_event ev \<Longrightarrow> P ev"
  shows "appends P (connect_milvus env host port)"
  unfolding connect_milvus_def
  by (intro appends_try_except appends_bind appends_raise appends_return)
     (auto intro!: appends_call appends_return assms simp: connection_event_def)

lemma any_event_holds: "any_event ev"
  by (simp add: any_event_def)

lemma appends_generate_answer: "appends any_event (generate_answer env q chunks)"
  unfolding generate_answer_def Let_def
  by (intro appends_try_except appends_call appends_return) (simp add: any_event_def)

lemma appends_handle_results: "appends P (handle_results env results)"
  unfolding handle_results_def
  by (auto split: list.splits intro: appends_raise appends_lift)

lemma appends_respond: "appends any_event (respond env request x)"
  unfolding respond_def
  by (cases x) (auto intro!: appends_bind appends_generate_answer appends_return)

lemma appends_ask_error: "appends P (ask_error e)"
  unfolding ask_error_def by (rule appends_raise)

lemma trace_try_bind_call:
  assumes "\<And>x. appends P (k x)" and "\<And>e. appends P (h e)"
  shows "\<exists>tail. trace (snd (try_except (bind (call ev f) k) h s)) = trace s @ ev # tail"
proof -
  obtain r s' where c: "call ev f s = (r, s')" by (cases "call ev f s")
  then have tr: "trace s' = trace s @ [ev]"
    by (auto simp: call_def split: prod.splits)
  show ?thesis
  proof (cases r)
    case (Inl e)
    with c have "try_except (bind (call ev f) k) h s = h e s'"
      by (simp add: try_bind_Inl)
    moreover from assms(2) [of e] obtain evs where "trace (snd (h e s')) = trace s' @ evs"
      unfolding appends_def by blast
    ultimately show ?thesis using tr by simp
  next
    case (Inr x)
    with c have "try_except (bind (call ev f) k) h s = try_except (k x) h s'"
      by (simp add: try_bind_Inr)
    moreover from appends_try_except [of P "k x" h, OF assms(1) assms(2)]
    obtain evs where "trace (snd (try_except (k x) h s')) = trace s' @ evs"
      unfolding appends_def by blast
    ultimately show ?thesis using tr by simp
  qed
qed

section \<open>delete_document\<close>

lemma delete_event_Delete: "delete_event (Delete c e)"
  by (simp add: delete_event_def)

lemma connection_delete_event: "connection_event ev \<Longrightarrow> delete_event ev"
  by (cases ev) (simp_all add: delete_event_def connection_event_def)

lemma appends_delete_document: "appends delete_event (delete_document env d)"
  unfolding delete_document_def
  by (intro appends_try_except appends_bind appends_raise appends_return appends_connect_milvus
        appends_call)
     (simp_all add: delete_event_Delete connection_delete_event)

lemma delete_document_errors:
  assumes "delete_document env d s = (Inl e, s')"
  shows "\<exists>x. e = HTTPException 500 (DetailOf ''Error eliminando documento: '' x)"
  using assms
  by (auto simp: delete_document_def try_except_def raise_def split: prod.splits sum.splits)

text \<open>
  C10. For every \<open>document_id\<close>, ingested or not: whenever the connection succeeds and the
  store's delete call returns without raising, \<open>delete_document\<close> answers success. It never
  checks that the document exists: the only calls it makes are those of \<open>connect_milvus\<close>
  and the one \<open>Delete\<close>, no query and no search. It never reports a not-found condition:
  the only error it returns is the HTTP 500 that wraps an exception of a collaborator.
\<close>

theorem delete_document_no_existence_check:
  "(\<exists>evs. trace (snd (delete_document env document_id s)) = trace s @ evs
            \<and> list_all delete_event evs)
   \<and> (\<forall>c s1 s2.
        connect_milvus env MILVUS_HOST MILVUS_PORT s = (Inr c, s1) \<longrightarrow>
        call (Delete c (delete_expr document_id))
          (collection_delete env c (delete_expr document_id)) s1 = (Inr (), s2) \<longrightarrow>
        delete_document env document_id s
          = (Inr (DeleteResponse ''success'' (''Documento '' @ document_id @ '' eliminado'')), s2))
   \<and> (\<forall>e s'.
        delete_document env document_id s = (Inl e, s') \<longrightarrow>
        (\<exists>x. e = HTTPException 500 (DetailOf ''Error eliminando documento: '' x)))"
proof (intro conjI allI impI)
  show "\<exists>evs. trace (snd (delete_document env document_id s)) = trace s @ evs
            \<and> list_all delete_event evs"
    using appends_delete_document [of env document_id] unfolding appends_def by blast
next
  fix c s1 s2
  assume "connect_milvus env MILVUS_HOST MILVUS_PORT s = (Inr c, s1)"
    and "call (Delete c (delete_expr document_id))
           (collection_delete env c (delete_expr document_id)) s1 = (Inr (), s2)"
  then show "delete_document env document_id s
          = (Inr (DeleteResponse ''success'' (''Documento '' @ document_id @ '' eliminado'')), s2)"
    unfolding delete_document_def
    by (simp add: try_except_def bind_def return_def)
next
  fix e s'
  assume "delete_document env document_id s = (Inl e, s')"
  then show "\<exists>x. e = HTTPException 500 (DetailOf ''Error eliminando documento: '' x)"
    by (rule delete_document_errors)
qed

theorem delete_document_no_existence_check_witness:
  "fst (delete_document (mem_env 384 (Inr ''ok'')) ''never-ingested''
          (start (mem_with [StoredRow ''d1_chunk_0'' ''d1'' ''text'' [] ''a.txt''])))
     = Inr (DeleteResponse ''success'' ''Documento never-ingested eliminado'')
   \<and> trace (snd (delete_document (mem_env 384 (Inr ''ok'')) ''never-ingested''
          (start (mem_with [StoredRow ''d1_chunk_0'' ''d1'' ''text'' [] ''a.txt'']))))
     = [Connect ''default'' ''localhost'' ''19530'', HasCollection ''documents'',
        OpenCollection ''documents'', HasIndex (CollectionRef 0), Load (CollectionRef 0),
        Delete (CollectionRef 0) (delete_expr ''never-ingested'')]"
proof -
  let ?E = "mem_env 384 (Inr ''ok'') :: (mem, int) env"
  let ?S = "start (mem_with [StoredRow ''d1_chunk_0'' ''d1'' ''text'' [] ''a.txt'']) :: (mem, int) state"
  let ?S1 = "snd (connect_milvus ?E MILVUS_HOST MILVUS_PORT ?S)"
  let ?D = "call (Delete (CollectionRef 0) (delete_expr ''never-ingested''))
              (collection_delete ?E (CollectionRef 0) (delete_expr ''never-ingested''))"
  have c: "connect_milvus ?E MILVUS_HOST MILVUS_PORT ?S = (Inr (CollectionRef 0), ?S1)"
    by (rule pair_of_fst) (simp add: run_defs mem_defs)
  have d: "?D ?S1 = (Inr (), snd (?D ?S1))"
    by (rule pair_of_fst) (simp add: run_defs mem_defs)
  have tr: "trace (snd (?D ?S1))
     = [Connect ''default'' ''localhost'' ''19530'', HasCollection ''documents'',
        OpenCollection ''documents'', HasIndex (CollectionRef 0), Load (CollectionRef 0),
        Delete (CollectionRef 0) (delete_expr ''never-ingested'')]"
    by (simp add: run_defs mem_defs)
  from delete_document_no_existence_check [of ?E "''never-ingested''" ?S] c d
  have "delete_document ?E ''never-ingested'' ?S
          = (Inr (DeleteResponse ''success'' (''Documento '' @ ''never-ingested'' @ '' eliminado'')),
             snd (?D ?S1))"
    by blast
  with tr show ?thesis by simp
qed

section \<open>ask_question\<close>

lemma retrieve_search:
  assumes "get_embedding_model env (embedding_model request) s = (Inr m, s1)"
    and "call (Encode m [question request]) (model_encode env m [question request]) s1 = (Inr q, s2)"
    and "connect_milvus env MILVUS_HOST MILVUS_PORT s2 = (Inr c, s3)"
    and "call (Search c q ''embedding'' search_params (top_k request) output_fields)
           (collection_search env c q ''embedding'' search_params (top_k request) output_fields) s3
         = (r, s4)"
  shows "retrieve env request s =
     (case r of
        Inl e \<Rightarrow> (Inl e, s4)
      | Inr [] \<Rightarrow> (Inl (HTTPException 404 (Detail ''No se encontraron documentos relevantes'')), s4)
      | Inr (hits # rest) \<Rightarrow>
          if hits = []
          then (Inl (HTTPException 404 (Detail ''No se encontraron documentos relevantes'')), s4)
          else (collect_hits env hits ([], {}), s4))"
  unfolding retrieve_def using assms
  by (simp add: bind_def raise_def lift_def return_def split: sum.splits list.splits)

lemma ask_question_retrieve_Inl:
  "retrieve env request s = (Inl e, s1) \<Longrightarrow>
   ask_question env request s
     = (Inl (HTTPException 500 (DetailOf ''Error procesando pregunta: '' e)), s1)"
  unfolding ask_question_def by (simp add: try_except_def bind_def raise_def)

lemma collect_hits_result:
  "collect_hits env hits (cs, ss) = Inr (chunks, srcs) \<Longrightarrow>
   chunks = cs @ map hit_content hits \<and> srcs = ss \<union> document_names env hits"
proof (induction hits arbitrary: cs ss)
  case Nil
  then show ?case by (simp add: document_names_def)
next
  case (Cons h hs)
  from Cons.prems obtain metadata where md: "json_loads env (hit_metadata h) = Inr metadata"
    and rest: "collect_hits env hs
          (cs @ [hit_content h],
           (case metadata ''document_name'' of Some n \<Rightarrow> insert n ss | None \<Rightarrow> ss))
        = Inr (chunks, srcs)"
    by (auto split: sum.splits)
  from Cons.IH [OF rest] have chunks: "chunks = cs @ map hit_content (h # hs)"
    and srcs: "srcs = (case metadata ''document_name'' of Some n \<Rightarrow> insert n ss | None \<Rightarrow> ss)
                  \<union> document_names env hs"
    by simp_all
  have "document_names env (h # hs)
      = (case metadata ''document_name'' of Some n \<Rightarrow> {n} | None \<Rightarrow> {}) \<union> document_names env hs"
    using md by (auto simp: document_names_def split: option.splits)
  with srcs have "srcs = ss \<union> document_names env (h # hs)"
    by (auto split: option.splits)
  with chunks show ?case by simp
qed

lemma retrieve_success:
  assumes "retrieve env request s = (Inr (chunks, srcs), s1)"
  shows "\<exists>c q hits rest w w'.
      collection_search env c q ''embedding'' search_params (top_k request) output_fields w
        = (Inr (hits # rest), w')
      \<and> hits \<noteq> []
      \<and> Search c q ''embedding'' search_params (top_k request) output_fields \<in> set (trace s1)
      \<and> collect_hits env hits ([], {}) = Inr (chunks, srcs)"
proof -
  from assms obtain c q results t3 t4 where
    search: "call (Search c q ''embedding'' search_params (top_k request) output_fields)
           (collection_search env c q ''embedding'' search_params (top_k request) output_fields) t3
         = (Inr results, t4)"
    and after: "(case results of
        [] \<Rightarrow> raise (HTTPException 404 (Detail ''No se encontraron documentos relevantes''))
      | hits # _ \<Rightarrow>
          if hits = []
          then raise (HTTPException 404 (Detail ''No se encontraron documentos relevantes''))
          else lift (collect_hits env hits ([], {}))) t4 = (Inr (chunks, srcs), s1)"
    unfolding retrieve_def by (elim bind_InrE)
  from after obtain hits rest where results: "results = hits # rest" and hits: "hits \<noteq> []"
    and collected: "collect_hits env hits ([], {}) = Inr (chunks, srcs)" and same: "s1 = t4"
    by (auto simp: raise_def lift_def return_def split: list.splits if_splits sum.splits)
  from call_InrD [OF search] results same have
    "collection_search env c q ''embedding'' search_params (top_k request) output_fields (world t3)
        = (Inr (hits # rest), world t4)"
    and "Search c q ''embedding'' search_params (top_k request) output_fields \<in> set (trace s1)"
    by simp_all
  with hits collected show ?thesis by blast
qed

lemma ask_question_success:
  assumes "ask_question env request s = (Inr resp, s')"
  shows "\<exists>chunks srcs s1 a.
      retrieve env request s = (Inr (chunks, srcs), s1)
      \<and> resp = AskResponse a srcs (length chunks) (question request)
      \<and> trace s' = trace s1 @
          [ChatCompletion LLM_ENDPOINT ''dummy'' ''gemma''
             [ChatMessage ''system'' system_message,
              ChatMessage ''user''
                (build_prompt (join [CHR 0x0A, CHR 0x0A] chunks) (question request))]
             1000 (Decimal 7 1)]"
proof -
  from assms have body: "bind (retrieve env request) (\<lambda>(relevant_chunks, sources).
       bind (generate_answer env (question request) relevant_chunks) (\<lambda>answer.
       return (AskResponse answer sources (length relevant_chunks) (question request)))) s
     = (Inr resp, s')"
    unfolding ask_question_def
    by (auto simp: try_except_def raise_def split: prod.splits sum.splits)
  then obtain x s1 where r: "retrieve env request s = (Inr x, s1)"
    and rest: "(case x of (relevant_chunks, sources) \<Rightarrow>
       bind (generate_answer env (question request) relevant_chunks) (\<lambda>answer.
       return (AskResponse answer sources (length relevant_chunks) (question request)))) s1
     = (Inr resp, s')"
    by (rule bind_InrE)
  obtain chunks srcs where x: "x = (chunks, srcs)" by (cases x)
  from rest x obtain a t where g: "generate_answer env (question request) chunks s1 = (Inr a, t)"
    and "return (AskResponse a srcs (length chunks) (question request)) t = (Inr resp, s')"
    by (auto elim: bind_InrE)
  then have resp: "resp = AskResponse a srcs (length chunks) (question request)" and t: "t = s'"
    by (simp_all add: return_def)
  from g t have "trace s' = trace s1 @
          [ChatCompletion LLM_ENDPOINT ''dummy'' ''gemma''
             [ChatMessage ''system'' system_message,
              ChatMessage ''user''
                (build_prompt (join [CHR 0x0A, CHR 0x0A] chunks) (question request))]
             1000 (Decimal 7 1)]"
    unfolding generate_answer_def Let_def
    by (auto simp: try_except_def call_def return_def split: prod.splits sum.splits)
  with r x resp show ?thesis by blast
qed

lemma ask_question_unfold:
  "ask_question env request =
     try_except
      (bind (get_embedding_model env (embedding_model request)) (\<lambda>model.
       bind (call (Encode model [question request]) (model_encode env model [question request]))
         (\<lambda>question_embedding.
       bind (connect_milvus env MILVUS_HOST MILVUS_PORT) (\<lambda>collection.
       bind (call (Search collection question_embedding ''embedding'' search_params
                     (top_k request) output_fields)
               (collection_search env collection question_embedding ''embedding'' search_params
                     (top_k request) output_fields)) (\<lambda>results.
       bind (handle_results env results) (respond env request))))))
      ask_error"
  unfolding ask_question_def retrieve_def handle_results_def respond_def
  by (simp add: bind_assoc ask_error_def)

lemma ask_question_at_search:
  assumes "get_embedding_model env (embedding_model request) s = (Inr m, s1)"
    and "call (Encode m [question request]) (model_encode env m [question request]) s1 = (Inr q, s2)"
    and "connect_milvus env MILVUS_HOST MILVUS_PORT s2 = (Inr c, s3)"
  shows "ask_question env request s =
     try_except
       (bind (call (Search c q ''embedding'' search_params (top_k request) output_fields)
                (collection_search env c q ''embedding'' search_params (top_k request)
                   output_fields))
          (\<lambda>results. bind (handle_results env results) (respond env request)))
       ask_error s3"
  unfolding ask_question_unfold by (simp add: try_except_def bind_def assms)

lemma ask_question_reaches_search:
  assumes "get_embedding_model env (embedding_model request) s = (Inr m, s1)"
    and "call (Encode m [question request]) (model_encode env m [question request]) s1 = (Inr q, s2)"
    and "connect_milvus env MILVUS_HOST MILVUS_PORT s2 = (Inr c, s3)"
  shows "\<exists>tail. trace (snd (ask_question env request s))
            = trace s3 @ Search c q ''embedding'' search_params (top_k request) output_fields # tail"
  unfolding ask_question_at_search [OF assms]
  by (rule trace_try_bind_call [where P = any_event])
     (intro appends_bind appends_handle_results appends_respond appends_ask_error)+

text \<open>
  C6 (what the code does). When the search returns no match (no result list, or an empty
  first list), the HTTP 404 raised for it is caught by the handler's own \<open>except Exception\<close>
  and the request fails with HTTP 500, whose detail prints the 404: the empty result is
  reported as a server fault.
\<close>

theorem ask_question_no_matches:
  assumes "get_embedding_model env (embedding_model request) s = (Inr m, s1)"
    and "call (Encode m [question request]) (model_encode env m [question request]) s1 = (Inr q, s2)"
    and "connect_milvus env MILVUS_HOST MILVUS_PORT s2 = (Inr c, s3)"
    and "call (Search c q ''embedding'' search_params (top_k request) output_fields)
           (collection_search env c q ''embedding'' search_params (top_k request) output_fields) s3
         = (Inr results, s4)"
    and "results = [] \<or> (\<exists>rest. results = [] # rest)"
  shows "ask_question env request s
     = (Inl (HTTPException 500 (DetailOf ''Error procesando pregunta: ''
              (HTTPException 404 (Detail ''No se encontraron documentos relevantes'')))), s4)"
proof -
  have "retrieve env request s
     = (Inl (HTTPException 404 (Detail ''No se encontraron documentos relevantes'')), s4)"
    using assms(5) by (auto simp: retrieve_search [OF assms(1-4)])
  then show ?thesis by (rule ask_question_retrieve_Inl)
qed

theorem ask_question_no_matches_witness:
  "fst (ask_question (mem_env 384 (Inr ''Paris.''))
          (AskRequest ''What is X?'' ''all-MiniLM-L6-v2'' 5) (start (mem_with [])))
     = Inl (HTTPException 500 (DetailOf ''Error procesando pregunta: ''
              (HTTPException 404 (Detail ''No se encontraron documentos relevantes''))))"
proof -
  let ?E = "mem_env 384 (Inr ''Paris.'') :: (mem, int) env"
  let ?R = "AskRequest ''What is X?'' ''all-MiniLM-L6-v2'' 5"
  let ?S = "start (mem_with []) :: (mem, int) state"
  let ?m = "SentenceTransformerRef 0"
  let ?q = "[replicate 384 0] :: int list list"
  let ?c = "CollectionRef 0"
  let ?S1 = "snd (get_embedding_model ?E (embedding_model ?R) ?S)"
  let ?encode = "call (Encode ?m [question ?R]) (model_encode ?E ?m [question ?R])"
  let ?S2 = "snd (?encode ?S1)"
  let ?S3 = "snd (connect_milvus ?E MILVUS_HOST MILVUS_PORT ?S2)"
  let ?search = "call (Search ?c ?q ''embedding'' search_params (top_k ?R) output_fields)
           (collection_search ?E ?c ?q ''embedding'' search_params (top_k ?R) output_fields)"
  have m: "get_embedding_model ?E (embedding_model ?R) ?S = (Inr ?m, ?S1)"
    by (rule pair_of_fst) (simp add: run_defs mem_defs)
  have q: "?encode ?S1 = (Inr ?q, ?S2)"
    by (rule pair_of_fst) (simp add: run_defs mem_defs)
  have c: "connect_milvus ?E MILVUS_HOST MILVUS_PORT ?S2 = (Inr ?c, ?S3)"
    by (rule pair_of_fst) (simp add: run_defs mem_defs)
  have f: "?search ?S3 = (Inr [[]], snd (?search ?S3))"
    by (rule pair_of_fst) (simp add: run_defs mem_defs ask_defs)
  have e: "[[]] = [] \<or> (\<exists>rest. [[]] = [] # rest)"
    by simp
  from ask_question_no_matches [OF m q c f e] show ?thesis by simp
qed

text \<open>
  C5 (amended). When retrieval has succeeded and the call of the language model raises,
  whatever the exception, \<open>ask_question\<close> returns normally; the answer is the fixed prefix,
  then the first 500 characters of the context (the relevant chunks joined by a blank
  line), then the three characters \<open>...\<close>, which are appended whether or not the context
  was cut.
\<close>

theorem ask_question_llm_failure:
  assumes "retrieve env request s = (Inr (relevant_chunks, srcs), s1)"
    and "call (ChatCompletion LLM_ENDPOINT ''dummy'' ''gemma''
                 [ChatMessage ''system'' system_message,
                  ChatMessage ''user''
                    (build_prompt (join [CHR 0x0A, CHR 0x0A] relevant_chunks) (question request))]
                 1000 (Decimal 7 1))
           (chat_completions_create env LLM_ENDPOINT ''dummy'' ''gemma''
                 [ChatMessage ''system'' system_message,
                  ChatMessage ''user''
                    (build_prompt (join [CHR 0x0A, CHR 0x0A] relevant_chunks) (question request))]
                 1000 (Decimal 7 1)) s1
         = (Inl e, s2)"
  shows "ask_question env request s
     = (Inr (AskResponse
               (''Error conectando al LLM. Contexto encontrado:'' @ [CHR 0x0A, CHR 0x0A]
                  @ take 500 (join [CHR 0x0A, CHR 0x0A] relevant_chunks) @ ''...'')
               srcs (length relevant_chunks) (question request)), s2)"
  unfolding ask_question_def generate_answer_def Let_def using assms
  by (simp add: try_except_def bind_def return_def fallback_answer_def)

theorem ask_question_llm_failure_witness:
  "fst (ask_question (mem_env 384 (Inl (Exception ''timeout'')))
          (AskRequest ''What is X?'' ''all-MiniLM-L6-v2'' 2) (start (mem_with facts_rows)))
     = Inr (AskResponse
              (''Error conectando al LLM. Contexto encontrado:'' @ [CHR 0x0A, CHR 0x0A]
                 @ ''Paris is in France.'' @ [CHR 0x0A, CHR 0x0A] @ ''Rome is in Italy.'' @ ''...'')
              {JStr ''facts.txt'', JStr ''notes.md''} 2 ''What is X?'')"
proof -
  let ?E = "mem_env 384 (Inl (Exception ''timeout'')) :: (mem, int) env"
  let ?R = "AskRequest ''What is X?'' ''all-MiniLM-L6-v2'' 2"
  let ?S = "start (mem_with facts_rows) :: (mem, int) state"
  let ?chunks = "[''Paris is in France.'', ''Rome is in Italy.'']"
  let ?srcs = "{JStr ''facts.txt'', JStr ''notes.md''}"
  let ?S1 = "snd (retrieve ?E ?R ?S)"
  let ?llm = "call (ChatCompletion LLM_ENDPOINT ''dummy'' ''gemma''
                 [ChatMessage ''system'' system_message,
                  ChatMessage ''user''
                    (build_prompt (join [CHR 0x0A, CHR 0x0A] ?chunks) (question ?R))]
                 1000 (Decimal 7 1))
           (chat_completions_create ?E LLM_ENDPOINT ''dummy'' ''gemma''
                 [ChatMessage ''system'' system_message,
                  ChatMessage ''user''
                    (build_prompt (join [CHR 0x0A, CHR 0x0A] ?chunks) (question ?R))]
                 1000 (Decimal 7 1))"
  have r: "retrieve ?E ?R ?S = (Inr (?chunks, ?srcs), ?S1)"
    by (rule pair_of_fst) (auto simp: run_defs mem_defs ask_defs)
  have l: "?llm ?S1 = (Inl (Exception ''timeout''), snd (?llm ?S1))"
    by (rule pair_of_fst) (simp add: call_def mem_env_def split: prod.splits)
  from ask_question_llm_failure [OF r l] show ?thesis by simp
qed

text \<open>
  C5 as stated fails: with one match \<open>Paris is in France.\<close> and a model that times out,
  the answer ends in \<open>...\<close> and so is not the prefix followed by the first 500 characters
  of the context.
\<close>

theorem ask_question_llm_failure_counterexample:
  "fst (ask_question (mem_env 384 (Inl (Exception ''timeout'')))
          (AskRequest ''What is X?'' ''all-MiniLM-L6-v2'' 1) (start (mem_with facts_rows)))
     = Inr (AskResponse
              (''Error conectando al LLM. Contexto encontrado:'' @ [CHR 0x0A, CHR 0x0A]
                 @ ''Paris is in France.'' @ ''...'')
              {JStr ''facts.txt''} 1 ''What is X?'')
   \<and> ''Error conectando al LLM. Contexto encontrado:'' @ [CHR 0x0A, CHR 0x0A]
        @ ''Paris is in France.'' @ ''...''
     \<noteq> ''Error conectando al LLM. Contexto encontrado:'' @ [CHR 0x0A, CHR 0x0A]
        @ take 500 ''Paris is in France.''"
  by (simp add: run_defs mem_defs ask_defs fallback_answer_def)

text \<open>
  C8. For every successful \<open>ask_question\<close>: the store returned a non-empty first list of
  hits to the search of this request; the prompt sent to the language model (the last
  call of the run) is built from the grounding context, that is the contents of these
  hits in the order the store returned them, joined by a blank line; the returned sources
  are the set of the document names of these hits, and \<open>context_chunks\<close> is their number.
\<close>

theorem ask_question_context_and_sources:
  assumes "ask_question env request s = (Inr resp, s')"
  shows "\<exists>c q hits rest w w'.
      collection_search env c q ''embedding'' search_params (top_k request) output_fields w
        = (Inr (hits # rest), w')
      \<and> hits \<noteq> []
      \<and> Search c q ''embedding'' search_params (top_k request) output_fields \<in> set (trace s')
      \<and> last (trace s') =
          ChatCompletion LLM_ENDPOINT ''dummy'' ''gemma''
             [ChatMessage ''system'' system_message,
              ChatMessage ''user'' (build_prompt (grounding_context hits) (question request))]
             1000 (Decimal 7 1)
      \<and> resp_sources resp = document_names env hits
      \<and> resp_context_chunks resp = length hits"
proof -
  from ask_question_success [OF assms] obtain chunks srcs s1 a where
    r: "retrieve env request s = (Inr (chunks, srcs), s1)"
    and resp: "resp = AskResponse a srcs (length chunks) (question request)"
    and tr: "trace s' = trace s1 @
          [ChatCompletion LLM_ENDPOINT ''dummy'' ''gemma''
             [ChatMessage ''system'' system_message,
              ChatMessage ''user''
                (build_prompt (join [CHR 0x0A, CHR 0x0A] chunks) (question request))]
             1000 (Decimal 7 1)]"
    by blast
  from retrieve_success [OF r] obtain c q hits rest w w' where
    search: "collection_search env c q ''embedding'' search_params (top_k request) output_fields w
        = (Inr (hits # rest), w')"
    and hits: "hits \<noteq> []"
    and ev: "Search c q ''embedding'' search_params (top_k request) output_fields \<in> set (trace s1)"
    and collected: "collect_hits env hits ([], {}) = Inr (chunks, srcs)"
    by blast
  from collect_hits_result [OF collected] have chunks: "chunks = map hit_content hits"
    and srcs: "srcs = document_names env hits"
    by simp_all
  have "Search c q ''embedding'' search_params (top_k request) output_fields \<in> set (trace s')"
    using ev tr by simp
  moreover have "last (trace s') =
          ChatCompletion LLM_ENDPOINT ''dummy'' ''gemma''
             [ChatMessage ''system'' system_message,
              ChatMessage ''user'' (build_prompt (grounding_context hits) (question request))]
             1000 (Decimal 7 1)"
    using tr chunks by (simp add: grounding_context_def)
  moreover have "resp_sources resp = document_names env hits"
    and "resp_context_chunks resp = length hits"
    using resp srcs chunks by simp_all
  ultimately show ?thesis using search hits by blast
qed

theorem ask_question_context_and_sources_witness:
  "fst (ask_question (mem_env 384 (Inr ''Paris.''))
          (AskRequest ''What is X?'' ''all-MiniLM-L6-v2'' 3) (start (mem_with facts_rows)))
     = Inr (AskResponse ''Paris.'' {JStr ''facts.txt'', JStr ''notes.md''} 3 ''What is X?'')
   \<and> (\<exists>c q hits rest w w'.
      collection_search (mem_env 384 (Inr ''Paris.'')) c q ''embedding'' search_params 3
          output_fields w
        = (Inr (hits # rest), w')
      \<and> hits \<noteq> []
      \<and> Search c q ''embedding'' search_params 3 output_fields
          \<in> set (trace (snd (ask_question (mem_env 384 (Inr ''Paris.''))
                (AskRequest ''What is X?'' ''all-MiniLM-L6-v2'' 3) (start (mem_with facts_rows)))))
      \<and> last (trace (snd (ask_question (mem_env 384 (Inr ''Paris.''))
                (AskRequest ''What is X?'' ''all-MiniLM-L6-v2'' 3) (start (mem_with facts_rows))))) =
          ChatCompletion LLM_ENDPOINT ''dummy'' ''gemma''
             [ChatMessage ''system'' system_message,
              ChatMessage ''user'' (build_prompt (grounding_context hits) ''What is X?'')]
             1000 (Decimal 7 1)
      \<and> {JStr ''facts.txt'', JStr ''notes.md''} = document_names (mem_env 384 (Inr ''Paris.'')) hits
      \<and> 3 = length hits)"
proof -
  let ?E = "mem_env 384 (Inr ''Paris.'') :: (mem, int) env"
  let ?R = "AskRequest ''What is X?'' ''all-MiniLM-L6-v2'' 3"
  let ?S = "start (mem_with facts_rows) :: (mem, int) state"
  let ?resp = "AskResponse ''Paris.'' {JStr ''facts.txt'', JStr ''notes.md''} 3 ''What is X?''"
  have r: "fst (ask_question ?E ?R ?S) = Inr ?resp"
    by (auto simp: run_defs mem_defs ask_defs)
  then have run: "ask_question ?E ?R ?S = (Inr ?resp, snd (ask_question ?E ?R ?S))"
    by (rule pair_of_fst)
  from ask_question_context_and_sources [OF run] r show ?thesis
    by simp
qed

text \<open>
  C2 (amended). \<open>ask_question\<close> compares no dimensions and has no error of its own for a
  mismatch: once the model is loaded, the question encoded and the collection connected,
  the vector the model returned is handed to the store's search as it is, whatever its
  length, neither truncated nor padded; when the store raises on it, the request fails with
  HTTP 500 whose detail prints the store's exception.
\<close>

theorem ask_question_no_dimension_check:
  assumes "get_embedding_model env (embedding_model request) s = (Inr m, s1)"
    and "call (Encode m [question request]) (model_encode env m [question request]) s1 = (Inr q, s2)"
    and "connect_milvus env MILVUS_HOST MILVUS_PORT s2 = (Inr c, s3)"
  shows "(\<exists>tail. trace (snd (ask_question env request s))
            = trace s3 @ Search c q ''embedding'' search_params (top_k request) output_fields # tail)
    \<and> (\<forall>e s4.
         call (Search c q ''embedding'' search_params (top_k request) output_fields)
           (collection_search env c q ''embedding'' search_params (top_k request) output_fields) s3
           = (Inl e, s4) \<longrightarrow>
         ask_question env request s
           = (Inl (HTTPException 500 (DetailOf ''Error procesando pregunta: '' e)), s4))"
proof (intro conjI allI impI)
  show "\<exists>tail. trace (snd (ask_question env request s))
            = trace s3 @ Search c q ''embedding'' search_params (top_k request) output_fields # tail"
    by (rule ask_question_reaches_search [OF assms])
next
  fix e s4
  assume "call (Search c q ''embedding'' search_params (top_k request) output_fields)
           (collection_search env c q ''embedding'' search_params (top_k request) output_fields) s3
           = (Inl e, s4)"
  then show "ask_question env request s
           = (Inl (HTTPException 500 (DetailOf ''Error procesando pregunta: '' e)), s4)"
    unfolding ask_question_at_search [OF assms]
    by (simp add: try_bind_Inl ask_error_def raise_def)
qed

theorem ask_question_no_dimension_check_witness:
  "fst (ask_question (mem_env 768 (Inr ''Paris.''))
          (AskRequest ''What is X?'' ''all-mpnet-base-v2'' 5) (start (mem_with facts_rows)))
     = Inl (HTTPException 500 (DetailOf ''Error procesando pregunta: ''
              (Exception ''vector dimension mismatch'')))"
proof -
  let ?E = "mem_env 768 (Inr ''Paris.'') :: (mem, int) env"
  let ?R = "AskRequest ''What is X?'' ''all-mpnet-base-v2'' 5"
  let ?S = "start (mem_with facts_rows) :: (mem, int) state"
  let ?m = "SentenceTransformerRef 0"
  let ?q = "[replicate 768 0] :: int list list"
  let ?c = "CollectionRef 0"
  let ?S1 = "snd (get_embedding_model ?E (embedding_model ?R) ?S)"
  let ?encode = "call (Encode ?m [question ?R]) (model_encode ?E ?m [question ?R])"
  let ?S2 = "snd (?encode ?S1)"
  let ?S3 = "snd (connect_milvus ?E MILVUS_HOST MILVUS_PORT ?S2)"
  let ?search = "call (Search ?c ?q ''embedding'' search_params (top_k ?R) output_fields)
           (collection_search ?E ?c ?q ''embedding'' search_params (top_k ?R) output_fields)"
  have m: "get_embedding_model ?E (embedding_model ?R) ?S = (Inr ?m, ?S1)"
    by (rule pair_of_fst) (simp add: run_defs mem_defs)
  have q: "?encode ?S1 = (Inr ?q, ?S2)"
    by (rule pair_of_fst) (simp add: run_defs mem_defs)
  have c: "connect_milvus ?E MILVUS_HOST MILVUS_PORT ?S2 = (Inr ?c, ?S3)"
    by (rule pair_of_fst) (simp add: run_defs mem_defs)
  have f: "?search ?S3 = (Inl (Exception ''vector dimension mismatch''), snd (?search ?S3))"
    by (rule pair_of_fst) (simp add: run_defs mem_defs ask_defs)
  from ask_question_no_dimension_check [OF m q c] f
  have "ask_question ?E ?R ?S
      = (Inl (HTTPException 500 (DetailOf ''Error procesando pregunta: ''
                (Exception ''vector dimension mismatch''))), snd (?search ?S3))"
    by blast
  then show ?thesis by simp
qed

text \<open>
  C2 as stated fails: with a model of output dimension 768 and a collection of dimension
  384, the search is called, with the vector of length 768.
\<close>

theorem ask_question_no_dimension_check_counterexample:
  "mem_dim (mem_with facts_rows) = Some 384
   \<and> fst (model_encode (mem_env 768 (Inr ''Paris.'')) (SentenceTransformerRef 0) [''What is X?'']
            (mem_with facts_rows)) = Inr [replicate 768 0]
   \<and> trace (snd (ask_question (mem_env 768 (Inr ''Paris.''))
                    (AskRequest ''What is X?'' ''all-mpnet-base-v2'' 5)
                    (start (mem_with facts_rows))))
     = [LoadModel ''all-mpnet-base-v2'',
        Encode (SentenceTransformerRef 0) [''What is X?''],
        Connect ''default'' ''localhost'' ''19530'', HasCollection ''documents'',
        OpenCollection ''documents'', HasIndex (CollectionRef 0), Load (CollectionRef 0),
        Search (CollectionRef 0) [replicate 768 0] ''embedding'' (SearchParams ''COSINE'' 10) 5
          [''content'', ''metadata'', ''document_id'']]"
  by (simp add: run_defs mem_defs ask_defs)

text \<open>
  C4 (amended). \<open>ask_question\<close> does not look at \<open>top_k\<close> before it works: whatever
  \<open>top_k\<close> is, zero and negative included, once the model is loaded the question is encoded,
  and once the collection is connected the store's search is called with \<open>top_k\<close> itself
  as the limit; when the store raises on that call, the request fails with HTTP 500 whose
  detail prints the store's exception.
\<close>

theorem ask_question_no_top_k_check:
  assumes "get_embedding_model env (embedding_model request) s = (Inr m, s1)"
  shows "(\<exists>tail. trace (snd (ask_question env request s))
            = trace s1 @ Encode m [question request] # tail)
    \<and> (\<forall>q s2 c s3.
         call (Encode m [question request]) (model_encode env m [question request]) s1
           = (Inr q, s2) \<longrightarrow>
         connect_milvus env MILVUS_HOST MILVUS_PORT s2 = (Inr c, s3) \<longrightarrow>
         (\<exists>tail. trace (snd (ask_question env request s))
            = trace s3 @ Search c q ''embedding'' search_params (top_k request) output_fields # tail)
         \<and> (\<forall>e s4.
              call (Search c q ''embedding'' search_params (top_k request) output_fields)
                (collection_search env c q ''embedding'' search_params (top_k request)
                   output_fields) s3
                = (Inl e, s4) \<longrightarrow>
              ask_question env request s
                = (Inl (HTTPException 500 (DetailOf ''Error procesando pregunta: '' e)), s4)))"
proof (intro conjI allI impI)
  let ?k = "\<lambda>question_embedding.
       bind (connect_milvus env MILVUS_HOST MILVUS_PORT) (\<lambda>collection.
       bind (call (Search collection question_embedding ''embedding'' search_params
                     (top_k request) output_fields)
               (collection_search env collection question_embedding ''embedding'' search_params
                     (top_k request) output_fields)) (\<lambda>results.
       bind (handle_results env results) (respond env request)))"
  have eq: "ask_question env request s
      = try_except (bind (call (Encode m [question request])
                            (model_encode env m [question request])) ?k) ask_error s1"
    unfolding ask_question_unfold by (simp add: try_except_def bind_def assms)
  show "\<exists>tail. trace (snd (ask_question env request s))
            = trace s1 @ Encode m [question request] # tail"
    unfolding eq
    by (rule trace_try_bind_call [where P = any_event])
       (intro appends_bind appends_connect_milvus any_event_holds appends_call appends_handle_results
          appends_respond appends_ask_error)+
next
  fix q s2 c s3
  assume "call (Encode m [question request]) (model_encode env m [question request]) s1
           = (Inr q, s2)"
    and "connect_milvus env MILVUS_HOST MILVUS_PORT s2 = (Inr c, s3)"
  from ask_question_reaches_search [OF assms this]
  show "\<exists>tail. trace (snd (ask_question env request s))
            = trace s3 @ Search c q ''embedding'' search_params (top_k request) output_fields # tail" .
next
  fix q s2 c s3 e s4
  assume enc: "call (Encode m [question request]) (model_encode env m [question request]) s1
           = (Inr q, s2)"
    and con: "connect_milvus env MILVUS_HOST MILVUS_PORT s2 = (Inr c, s3)"
    and "call (Search c q ''embedding'' search_params (top_k request) output_fields)
                (collection_search env c q ''embedding'' search_params (top_k request)
                   output_fields) s3
                = (Inl e, s4)"
  then show "ask_question env request s
                = (Inl (HTTPException 500 (DetailOf ''Error procesando pregunta: '' e)), s4)"
    unfolding ask_question_at_search [OF assms enc con]
    by (simp add: try_bind_Inl ask_error_def raise_def)
qed

theorem ask_question_no_top_k_check_witness:
  "trace (snd (ask_question (mem_env 384 (Inr ''Paris.''))
                 (AskRequest ''What is X?'' ''all-MiniLM-L6-v2'' (- 1))
                 (start (mem_with facts_rows))))
     = [LoadModel ''all-MiniLM-L6-v2'',
        Encode (SentenceTransformerRef 0) [''What is X?''],
        Connect ''default'' ''localhost'' ''19530'', HasCollection ''documents'',
        OpenCollection ''documents'', HasIndex (CollectionRef 0), Load (CollectionRef 0),
        Search (CollectionRef 0) [replicate 384 0] ''embedding'' search_params (- 1) output_fields]
   \<and> fst (ask_question (mem_env 384 (Inr ''Paris.''))
            (AskRequest ''What is X?'' ''all-MiniLM-L6-v2'' (- 1)) (start (mem_with facts_rows)))
     = Inl (HTTPException 500 (DetailOf ''Error procesando pregunta: ''
              (Exception ''limit must be positive'')))"
proof -
  let ?E = "mem_env 384 (Inr ''Paris.'') :: (mem, int) env"
  let ?R = "AskRequest ''What is X?'' ''all-MiniLM-L6-v2'' (- 1)"
  let ?S = "start (mem_with facts_rows) :: (mem, int) state"
  let ?m = "SentenceTransformerRef 0"
  let ?q = "[replicate 384 0] :: int list list"
  let ?c = "CollectionRef 0"
  let ?S1 = "snd (get_embedding_model ?E (embedding_model ?R) ?S)"
  let ?encode = "call (Encode ?m [question ?R]) (model_encode ?E ?m [question ?R])"
  let ?S2 = "snd (?encode ?S1)"
  let ?S3 = "snd (connect_milvus ?E MILVUS_HOST MILVUS_PORT ?S2)"
  let ?search = "call (Search ?c ?q ''embedding'' search_params (top_k ?R) output_fields)
           (collection_search ?E ?c ?q ''embedding'' search_params (top_k ?R) output_fields)"
  let ?S4 = "snd (?search ?S3)"
  have m: "get_embedding_model ?E (embedding_model ?R) ?S = (Inr ?m, ?S1)"
    by (rule pair_of_fst) (simp add: run_defs mem_defs)
  have q: "?encode ?S1 = (Inr ?q, ?S2)"
    by (rule pair_of_fst) (simp add: run_defs mem_defs)
  have c: "connect_milvus ?E MILVUS_HOST MILVUS_PORT ?S2 = (Inr ?c, ?S3)"
    by (rule pair_of_fst) (simp add: run_defs mem_defs)
  have f: "?search ?S3 = (Inl (Exception ''limit must be positive''), ?S4)"
    by (rule pair_of_fst) (simp add: run_defs mem_defs ask_defs)
  have tr: "trace ?S4
     = [LoadModel ''all-MiniLM-L6-v2'',
        Encode (SentenceTransformerRef 0) [''What is X?''],
        Connect ''default'' ''localhost'' ''19530'', HasCollection ''documents'',
        OpenCollection ''documents'', HasIndex (CollectionRef 0), Load (CollectionRef 0),
        Search (CollectionRef 0) [replicate 384 0] ''embedding'' search_params (- 1) output_fields]"
    by (simp add: run_defs mem_defs)
  from ask_question_no_top_k_check [OF m] q c f
  have "ask_question ?E ?R ?S
      = (Inl (HTTPException 500 (DetailOf ''Error procesando pregunta: ''
                (Exception ''limit must be positive''))), ?S4)"
    by blast
  with tr show ?thesis by simp
qed

text \<open>
  C4 as stated fails: with \<open>top_k = 0\<close> the question is encoded and the search is called
  with limit 0; the store's own refusal comes back as HTTP 500.
\<close>

theorem ask_question_no_top_k_check_counterexample:
  "fst (ask_question (mem_env 384 (Inr ''Paris.''))
          (AskRequest ''What is X?'' ''all-MiniLM-L6-v2'' 0) (start (mem_with facts_rows)))
     = Inl (HTTPException 500 (DetailOf ''Error procesando pregunta: ''
              (Exception ''limit must be positive'')))
   \<and> trace (snd (ask_question (mem_env 384 (Inr ''Paris.''))
                    (AskRequest ''What is X?'' ''all-MiniLM-L6-v2'' 0)
                    (start (mem_with facts_rows))))
     = [LoadModel ''all-MiniLM-L6-v2'',
        Encode (SentenceTransformerRef 0) [''What is X?''],
        Connect ''default'' ''localhost'' ''19530'', HasCollection ''documents'',
        OpenCollection ''documents'', HasIndex (CollectionRef 0), Load (CollectionRef 0),
        Search (CollectionRef 0) [replicate 384 0] ''embedding'' (SearchParams ''COSINE'' 10) 0
          [''content'', ''metadata'', ''document_id'']]"
  by (simp add: run_defs mem_defs ask_defs)

section \<open>list_documents\<close>

lemma add_chunk_keys: "map fst (map (add_chunk d) documents) = map fst documents"
  by (induction documents) (simp_all add: add_chunk_def)

lemma add_chunk_absent:
  "d \<notin> fst ` set documents \<Longrightarrow> map (add_chunk d) documents = documents"
  by (induction documents) (auto simp: add_chunk_def)

lemma add_chunk_total:
  "distinct (map fst documents) \<Longrightarrow> d \<in> fst ` set documents \<Longrightarrow>
   total_chunks (map (add_chunk d) documents) = Suc (total_chunks documents)"
proof (induction documents)
  case Nil
  then show ?case by simp
next
  case (Cons e es)
  show ?case
  proof (cases "fst e = d")
    case True
    with Cons.prems have "d \<notin> fst ` set es" by auto
    then have rest: "map (add_chunk d) es = es" by (rule add_chunk_absent)
    have "doc_chunks (snd (add_chunk d e)) = Suc (doc_chunks (snd e))"
      using True by (simp add: add_chunk_def)
    with rest show ?thesis by (simp add: total_chunks_def)
  next
    case False
    with Cons.prems have "distinct (map fst es)" and "d \<in> fst ` set es" by auto
    from Cons.IH [OF this] have
      "total_chunks (map (add_chunk d) es) = Suc (total_chunks es)" .
    moreover have "add_chunk d e = e"
      using False by (simp add: add_chunk_def)
    ultimately show ?thesis by (simp add: total_chunks_def)
  qed
qed

lemma add_chunk_positive:
  "list_all (\<lambda>e. 0 < doc_chunks (snd e)) documents \<Longrightarrow>
   list_all (\<lambda>e. 0 < doc_chunks (snd e)) (map (add_chunk d) documents)"
  by (induction documents) (auto simp: add_chunk_def)

lemma add_chunk_new:
  "d \<notin> fst ` set documents \<Longrightarrow>
   map (add_chunk d) (documents @ [(d, DocumentInfo d x y 0)])
     = documents @ [(d, DocumentInfo d x y 1)]"
  by (simp add: add_chunk_absent) (simp add: add_chunk_def)

lemma group_rows_total:
  assumes "group_rows env rows documents = Inr documents'"
    and "distinct (map fst documents)"
    and "list_all (\<lambda>e. 0 < doc_chunks (snd e)) documents"
  shows "total_chunks documents' = total_chunks documents + length rows
    \<and> distinct (map fst documents')
    \<and> list_all (\<lambda>e. 0 < doc_chunks (snd e)) documents'"
  using assms
proof (induction rows arbitrary: documents)
  case Nil
  then show ?case by simp
next
  case (Cons r rows)
  let ?d = "row_document_id r"
  show ?case
  proof (cases "?d \<in> fst ` set documents")
    case True
    with Cons.prems(1) have rest:
      "group_rows env rows (map (add_chunk ?d) documents) = Inr documents'"
      by (simp add: Let_def)
    have "distinct (map fst (map (add_chunk ?d) documents))"
      using Cons.prems(2) by (simp only: add_chunk_keys)
    from Cons.IH [OF rest this add_chunk_positive [OF Cons.prems(3)]]
      add_chunk_total [OF Cons.prems(2) True]
    show ?thesis by simp
  next
    case False
    with Cons.prems(1) obtain metadata where
      "json_loads env (row_metadata r) = Inr metadata"
      and rest: "group_rows env rows
         (map (add_chunk ?d)
            (documents @
              [(?d, DocumentInfo ?d
                  (get_default metadata ''document_name'' (JStr ''Documento desconocido''))
                  (get_default metadata ''upload_date'' (JStr [])) 0)]))
         = Inr documents'"
      by (auto simp: Let_def split: sum.splits)
    let ?x = "get_default metadata ''document_name'' (JStr ''Documento desconocido'')"
    let ?y = "get_default metadata ''upload_date'' (JStr [])"
    from rest have rest': "group_rows env rows (documents @ [(?d, DocumentInfo ?d ?x ?y 1)])
         = Inr documents'"
      by (simp only: add_chunk_new [OF False])
    have d: "distinct (map fst (documents @ [(?d, DocumentInfo ?d ?x ?y 1)]))"
      using Cons.prems(2) False by auto
    have p: "list_all (\<lambda>e. 0 < doc_chunks (snd e)) (documents @ [(?d, DocumentInfo ?d ?x ?y 1)])"
      using Cons.prems(3) by simp
    from Cons.IH [OF rest' d p] show ?thesis
      by (simp add: total_chunks_def)
  qed
qed

lemma length_le_total:
  "list_all (\<lambda>e. 0 < doc_chunks (snd e)) documents \<Longrightarrow> length documents \<le> total_chunks documents"
  by (induction documents) (auto simp: total_chunks_def)

text \<open>
  C9. \<open>list_documents\<close> asks the store for at most 1000 rows (the last call of a successful
  run is the query with limit 1000), and the chunk counts of the listing add up to the
  number of rows the query returned. With a store that honours the limit, a listing
  therefore accounts for at most 1000 chunks and names at most 1000 documents: when more
  chunks are stored, counts fall short and documents can be missing, as in the example
  that follows, where 1001 chunks are stored, the listing counts 1000 and the second
  document is absent.
\<close>

theorem list_documents_limit:
  assumes "honours_limit env"
    and "list_documents env s = (Inr docs, s')"
  shows "\<exists>c rows w w'.
      collection_query env c list_expr [''document_id'', ''metadata''] 1000 w = (Inr rows, w')
      \<and> last (trace s') = Query c list_expr [''document_id'', ''metadata''] 1000
      \<and> sum_list (map doc_chunks docs) = length rows
      \<and> length rows \<le> 1000
      \<and> length docs \<le> 1000"
proof -
  from assms(2) have body:
    "bind (connect_milvus env MILVUS_HOST MILVUS_PORT) (\<lambda>collection.
       bind (call (Query collection list_expr [''document_id'', ''metadata''] 1000)
               (collection_query env collection list_expr [''document_id'', ''metadata''] 1000))
         (\<lambda>results.
       bind (lift (group_rows env results [])) (\<lambda>documents.
       return (map snd documents)))) s = (Inr docs, s')"
    unfolding list_documents_def
    by (rule try_except_InrE) (simp add: raise_def)
  then obtain c t1 rows t2 documents t3 where
    query: "call (Query c list_expr [''document_id'', ''metadata''] 1000)
               (collection_query env c list_expr [''document_id'', ''metadata''] 1000) t1
            = (Inr rows, t2)"
    and grouped: "lift (group_rows env rows []) t2 = (Inr documents, t3)"
    and ret: "return (map snd documents) t3 = (Inr docs, s')"
    by (elim bind_InrE)
  from grouped have g: "group_rows env rows [] = Inr documents" and t3: "t3 = t2"
    by (auto simp: lift_def raise_def return_def split: sum.splits)
  from ret have docs: "docs = map snd documents" and s': "s' = t3"
    by (simp_all add: return_def)
  from call_InrD [OF query] have
    q: "collection_query env c list_expr [''document_id'', ''metadata''] 1000 (world t1)
          = (Inr rows, world t2)"
    and tr: "trace t2 = trace t1 @ [Query c list_expr [''document_id'', ''metadata''] 1000]"
    by simp_all
  from assms(1) q have limit: "length rows \<le> 1000"
    unfolding honours_limit_def by blast
  from group_rows_total [OF g] have
    total: "total_chunks documents = length rows"
    and pos: "list_all (\<lambda>e. 0 < doc_chunks (snd e)) documents"
    by (simp_all add: total_chunks_def)
  have sum: "sum_list (map doc_chunks docs) = length rows"
    using total docs by (simp add: total_chunks_def comp_def)
  have "length docs \<le> 1000"
    using length_le_total [OF pos] total limit docs by simp
  with q tr sum limit s' t3 show ?thesis by auto
qed

lemma group_rows_replicate_known:
  "group_rows env (replicate n (QueryRow d m)) [(d, DocumentInfo d x y k)]
     = Inr [(d, DocumentInfo d x y (k + n))]"
  by (induction n arbitrary: k) (simp_all add: add_chunk_def)

lemma group_rows_replicate_new:
  assumes "json_loads env m = Inr md" and "0 < n"
  shows "group_rows env (replicate n (QueryRow d m)) []
     = Inr [(d, DocumentInfo d (get_default md ''document_name'' (JStr ''Documento desconocido''))
                  (get_default md ''upload_date'' (JStr [])) n)]"
proof -
  from assms(2) obtain k where n: "n = Suc k" by (cases n) auto
  show ?thesis unfolding n
    by (simp add: assms(1) add_chunk_def group_rows_replicate_known)
qed

lemma honours_limit_mem: "honours_limit (mem_env d reply)"
  unfolding honours_limit_def by (auto simp: mem_env_def split: if_splits)

lemma list_documents_run:
  assumes "connect_milvus env MILVUS_HOST MILVUS_PORT s = (Inr c, s1)"
    and "call (Query c list_expr [''document_id'', ''metadata''] 1000)
           (collection_query env c list_expr [''document_id'', ''metadata''] 1000) s1
         = (Inr rows, s2)"
    and "group_rows env rows [] = Inr documents"
  shows "list_documents env s = (Inr (map snd documents), s2)"
  unfolding list_documents_def
  by (simp add: bind_def try_except_def lift_def return_def assms)

lemma mem_query_first:
  assumes "mem_rows w = replicate n r @ rs" and "stored_document_id r \<noteq> []"
  shows "collection_query (mem_env d reply) c list_expr outs n w = (Inr (replicate n (row_of r)), w)"
  by (simp add: mem_env_def filter_replicate assms)

theorem list_documents_limit_witness:
  "length thousand_and_one = 1001
   \<and> fst (list_documents (mem_env 384 (Inr ''ok'')) (start (mem_with thousand_and_one)))
       = Inr [DocumentInfo ''dA'' (JStr ''a.txt'') (JStr []) 1000]
   \<and> (\<exists>c rows w w'.
      collection_query (mem_env 384 (Inr ''ok'')) c list_expr [''document_id'', ''metadata''] 1000 w
        = (Inr rows, w')
      \<and> last (trace (snd (list_documents (mem_env 384 (Inr ''ok''))
                 (start (mem_with thousand_and_one)))))
          = Query c list_expr [''document_id'', ''metadata''] 1000
      \<and> sum_list (map doc_chunks [DocumentInfo ''dA'' (JStr ''a.txt'') (JStr []) 1000]) = length rows
      \<and> length rows \<le> 1000
      \<and> length [DocumentInfo ''dA'' (JStr ''a.txt'') (JStr []) 1000] \<le> 1000)"
proof -
  let ?E = "mem_env 384 (Inr ''ok'') :: (mem, int) env"
  let ?S = "start (mem_with thousand_and_one) :: (mem, int) state"
  let ?docs = "[DocumentInfo ''dA'' (JStr ''a.txt'') (JStr []) 1000]"
  let ?rA = "StoredRow ''dA_chunk'' ''dA'' ''text'' (replicate 384 0) ''a.txt''"
  have loads: "json_loads ?E ''a.txt'' = Inr [''document_name'' \<mapsto> JStr ''a.txt'']"
    by (simp add: mem_env_def)
  have grouped: "group_rows ?E (replicate 1000 (QueryRow ''dA'' ''a.txt'')) []
      = Inr [(''dA'', DocumentInfo ''dA'' (JStr ''a.txt'') (JStr []) 1000)]"
    by (simp add: group_rows_replicate_new [OF loads] get_default_def)
  have n: "length thousand_and_one = 1001"
    by (simp add: thousand_and_one_def)
  let ?S1 = "snd (connect_milvus ?E MILVUS_HOST MILVUS_PORT ?S)"
  let ?query = "call (Query (CollectionRef 0) list_expr [''document_id'', ''metadata''] 1000)
      (collection_query ?E (CollectionRef 0) list_expr [''document_id'', ''metadata''] 1000)"
  have c: "connect_milvus ?E MILVUS_HOST MILVUS_PORT ?S = (Inr (CollectionRef 0), ?S1)"
    by (rule pair_of_fst) (simp add: run_defs mem_defs)
  have rows: "mem_rows (world ?S1)
      = replicate 1000 ?rA @ [StoredRow ''dB_chunk_0'' ''dB'' ''text'' (replicate 384 0) ''b.txt'']"
    by (simp add: run_defs mem_defs thousand_and_one_def)
  have "collection_query ?E (CollectionRef 0) list_expr [''document_id'', ''metadata''] 1000
          (world ?S1) = (Inr (replicate 1000 (row_of ?rA)), world ?S1)"
    by (rule mem_query_first [OF rows]) simp
  then have q: "?query ?S1 = (Inr (replicate 1000 (QueryRow ''dA'' ''a.txt'')), snd (?query ?S1))"
    by (simp add: call_def row_of_def)
  have r: "fst (list_documents ?E ?S) = Inr ?docs"
    by (simp add: list_documents_run [OF c q grouped])
  then have run: "list_documents ?E ?S = (Inr ?docs, snd (list_documents ?E ?S))"
    by (rule pair_of_fst)
  from list_documents_limit [OF honours_limit_mem run] n r show ?thesis
    by blast
qed

section \<open>upload_document\<close>











lemma vector_dim_schema: "vector_dim schema = 384"
  by (simp add: vector_dim_def schema_def schema_fields_def)

lemma connection_creates_384: "connection_event ev \<Longrightarrow> creates_384 ev"
  by (cases ev) (simp_all add: connection_event_def creates_384_def vector_dim_schema)

lemma appends_get_embedding_model:
  "P (LoadModel n) \<Longrightarrow> appends P (get_embedding_model env n)"
  unfolding appends_def
  by (auto simp: get_embedding_model_def return_def bind_def call_def
      split: option.splits prod.splits sum.splits)

lemma appends_extract:
  assumes "P (ReadPdf path)" and "P (ReadText path)" and "P (ReadDocx path)"
  shows "appends P (extract_text_from_file env path t)"
  unfolding extract_text_from_file_def
  by (intro appends_try_except appends_raise)
     (auto intro!: appends_bind appends_call appends_return appends_raise assms)

lemma appends_prepare_chunks:
  assumes "P Now"
  shows "appends P (prepare_chunks env d n xs acc)"
proof (induction xs arbitrary: acc)
  case Nil
  show ?case by (simp add: appends_return)
next
  case (Cons x xs)
  obtain i c v where x: "x = (i, c, v)" by (cases x)
  obtain a1 a2 a3 a4 where acc: "acc = (a1, a2, a3, a4)" by (cases acc)
  show ?case unfolding x acc prepare_chunks.simps
    by (intro appends_bind appends_call_total assms Cons.IH)
qed

lemma appends_connect_creates_384: "appends creates_384 (connect_milvus env host port)"
  by (rule appends_connect_milvus) (rule connection_creates_384)

lemma appends_index_text: "appends creates_384 (index_text env file em path t)"
  unfolding index_text_def Let_def
  by (intro appends_bind appends_get_embedding_model appends_call appends_call_total
        appends_connect_creates_384 appends_prepare_chunks)
     (auto simp: creates_384_def split: prod.splits
        intro!: appends_bind appends_call appends_return)

text \<open>
  C3 (what the code does). Whatever the model identifier of the request and whatever the
  output dimension of its provider, every collection an upload creates has vector
  dimension 384, the constant of \<open>connect_milvus\<close>. In the example that follows the provider
  returns vectors of length 768, the collection is created with dimension 384, and the
  store refuses the insert.
\<close>

theorem upload_document_schema_dimension:
  "\<exists>evs. trace (snd (upload_document env file em s)) = trace s @ evs
         \<and> list_all creates_384 evs"
proof -
  have "appends creates_384 (upload_document env file em)"
    unfolding upload_document_def Let_def
    by (auto intro!: appends_raise appends_try_except appends_bind appends_call appends_return
          appends_extract appends_index_text simp: creates_384_def)
  then show ?thesis unfolding appends_def by blast
qed

theorem upload_document_schema_dimension_witness:
  "fst (model_encode (mem_env 768 (Inr ''ok'')) (SentenceTransformerRef 0) [''hello''] mem_empty)
     = Inr [replicate 768 0]
   \<and> trace (snd (upload_document (mem_env 768 (Inr ''ok'')) (UploadFile ''a.txt'' ''hello'')
                    ''all-mpnet-base-v2'' (start mem_empty)))
     = [TempFileWrite ''.txt'' ''hello'', ReadText ''/tmp/upload.txt'',
        LoadModel ''all-mpnet-base-v2'', Encode (SentenceTransformerRef 0) [''hello''],
        Connect ''default'' ''localhost'' ''19530'', HasCollection ''documents'',
        CreateCollection ''documents'' schema, HasIndex (CollectionRef 0),
        CreateIndex (CollectionRef 0) ''embedding'' index_params, Load (CollectionRef 0),
        Uuid4, Now,
        Insert (CollectionRef 0)
          (Entities [''doc-1_chunk_0''] [''doc-1''] [''hello''] [replicate 768 0] [''a.txt'']),
        Unlink ''/tmp/upload.txt'']
   \<and> vector_dim schema = 384
   \<and> fst (upload_document (mem_env 768 (Inr ''ok'')) (UploadFile ''a.txt'' ''hello'')
            ''all-mpnet-base-v2'' (start mem_empty))
     = Inl (HTTPException 500 (DetailOf ''Error procesando documento: ''
              (Exception ''vector dimension mismatch'')))"
proof -
  let ?E = "mem_env 768 (Inr ''ok'') :: (mem, int) env"
  let ?run = "upload_document ?E (UploadFile ''a.txt'' ''hello'') ''all-mpnet-base-v2''
                (start mem_empty)"
  have tr: "trace (snd ?run)
     = [TempFileWrite ''.txt'' ''hello'', ReadText ''/tmp/upload.txt'',
        LoadModel ''all-mpnet-base-v2'', Encode (SentenceTransformerRef 0) [''hello''],
        Connect ''default'' ''localhost'' ''19530'', HasCollection ''documents'',
        CreateCollection ''documents'' schema, HasIndex (CollectionRef 0),
        CreateIndex (CollectionRef 0) ''embedding'' index_params, Load (CollectionRef 0),
        Uuid4, Now,
        Insert (CollectionRef 0)
          (Entities [''doc-1_chunk_0''] [''doc-1''] [''hello''] [replicate 768 0] [''a.txt'']),
        Unlink ''/tmp/upload.txt'']"
    by (simp add: run_defs mem_defs upload_defs enumerate_eq_zip)
  have r: "fst ?run = Inl (HTTPException 500 (DetailOf ''Error procesando documento: ''
              (Exception ''vector dimension mismatch'')))"
    by (simp add: run_defs mem_defs upload_defs enumerate_eq_zip)
  have e: "fst (model_encode ?E (SentenceTransformerRef 0) [''hello''] mem_empty)
     = Inr [replicate 768 0]"
    by (simp add: mem_env_def)
  from upload_document_schema_dimension [of ?E "UploadFile ''a.txt'' ''hello''"
      "''all-mpnet-base-v2''" "start mem_empty"]
  obtain evs where evs: "trace (snd ?run) = trace (start mem_empty :: (mem, int) state) @ evs"
    and all: "list_all creates_384 evs"
    by blast
  from evs have "evs = trace (snd ?run)"
    by (simp add: start_def)
  with all have "list_all creates_384 (trace (snd ?run))"
    by simp
  then have "vector_dim schema = 384"
    unfolding tr by (simp add: creates_384_def)
  with tr r e show ?thesis by simp
qed

end
